theory Spec2Isabelle
  imports Complex_Main "HOL-Library.AList"
begin

section \<open>The port commands of the FBOSS command-line interface\<close>

text \<open>
  A shallow embedding of \<^verbatim>\<open>fboss/cli/commands/port.py\<close>. Python integers are
  \<open>int\<close>; a value that may be \<^verbatim>\<open>None\<close> is an \<open>option\<close>; a dictionary is an
  association list in insertion order, read with \<open>map_of\<close> and written with
  \<open>AList.update\<close>; every exception the code can raise is a value of \<open>error\<close>.
\<close>

datatype error =
    KeyError
  | TypeError
  | ValueError
  | AttributeError
  | AssertionError
  | OverflowError
  | FbossBaseError
  | TApplicationException
  | TransportError

subsection \<open>PortDetailsCmd._convert_bps\<close>

text \<open>
  Python's true division gives a float, and raises \<^verbatim>\<open>OverflowError\<close> when the quotient
  of two integers, rounded to the nearest float, is not a finite float: that is from
  \<open>2 ^ 1024 - 2 ^ 970\<close> on in absolute value, half a step above the largest float.
\<close>

definition float_limit :: int where
  "float_limit = 2 ^ 1024 - 2 ^ 970"

definition float_overflows :: "rat \<Rightarrow> bool" where
  "float_overflows q \<longleftrightarrow> of_int float_limit \<le> \<bar>q\<bar>"

text \<open>
  The loop over \<^verbatim>\<open>[(1, ''), (3, 'K'), (6, 'M'), (9, 'G')]\<close>: \<open>v\<close> is the running
  \<^verbatim>\<open>value\<close>, divided by 1000 in every round that does not break. \<open>Inr None\<close> is
  the loop running to its end with \<^verbatim>\<open>bps_per_unit\<close> still \<^verbatim>\<open>None\<close>.
  A float is modelled by the exact rational it rounds. For an integer \<^verbatim>\<open>bps\<close> the
  comparisons with 1000 come out the same on the floats as on the rationals, since the
  thresholds 10^3, 10^6, 10^9 and 10^12 are floats and an integer below one of them
  stays below after the rounded divisions. Only the first \<^verbatim>\<open>value /= 1000\<close> divides an
  integer and can overflow; the test is written in every round, and is false in the
  later ones, where \<open>v\<close> is below the limit already.
\<close>

fun convert_bps_loop ::
  "rat \<Rightarrow> rat \<Rightarrow> (nat \<times> string) list \<Rightarrow> error + (rat \<times> string) option" where
  "convert_bps_loop bps v [] = Inr None"
| "convert_bps_loop bps v ((factor, unit) # rest) =
     (if v < 1000 then
        (if float_overflows (bps / 10 ^ factor) then Inl OverflowError
         else Inr (Some (bps / 10 ^ factor, unit @ ''bps'')))
      else if float_overflows (v / 1000) then Inl OverflowError
      else convert_bps_loop bps (v / 1000) rest)"

definition convert_bps :: "int \<Rightarrow> error + rat \<times> string" where
  "convert_bps bps =
     (case convert_bps_loop (of_int bps) (of_int bps)
             [(1, ''''), (3, ''K''), (6, ''M''), (9, ''G'')] of
        Inl e \<Rightarrow> Inl e
      | Inr None \<Rightarrow> Inl AssertionError
      | Inr (Some r) \<Rightarrow> Inr r)"

subsection \<open>PortStatusDetailCmd._mw_to_dbm\<close>

text \<open>
  \<^verbatim>\<open>math.log10\<close> raises \<^verbatim>\<open>ValueError\<close> on a negative argument; zero never reaches
  it. The floats are modelled by the reals.
\<close>

definition mw_to_dbm :: "real \<Rightarrow> error + real" where
  "mw_to_dbm mw =
     (if mw = 0 then Inr 0
      else if mw < 0 then Inl ValueError
      else Inr (10 * log 10 mw))"

subsection \<open>Strings\<close>

text \<open>\<^verbatim>\<open>str\<close> of an integer, and the alignments of \<^verbatim>\<open>str.format\<close>.\<close>

definition digit :: "nat \<Rightarrow> char" where
  "digit n = ''0123456789'' ! n"

fun str_nat :: "nat \<Rightarrow> string" where
  "str_nat n = (if n < 10 then [digit n] else str_nat (n div 10) @ [digit (n mod 10)])"

definition str_int :: "int \<Rightarrow> string" where
  "str_int i = (if i < 0 then CHR ''-'' # str_nat (nat (- i)) else str_nat (nat i))"

definition ljust :: "nat \<Rightarrow> char \<Rightarrow> string \<Rightarrow> string" where
  "ljust w c s = s @ replicate (w - length s) c"

definition rjust :: "nat \<Rightarrow> char \<Rightarrow> string \<Rightarrow> string" where
  "rjust w c s = replicate (w - length s) c @ s"

subsection \<open>Thrift structures\<close>

text \<open>
  The fields this file reads. A transceiver's vendor, cable, settings, sensor, threshold
  and channel blocks are declared in the transceiver service's thrift file, which is not
  part of this source: they are kept together as one value of a type parameter, \<open>None\<close>
  when none of them is set, as in a fresh \<^verbatim>\<open>TransceiverInfo()\<close>.
\<close>

record transceiver_idx =
  channelId :: int
  transceiverId :: int
  channels :: "int list option"

record port_status =
  enabled :: bool
  up :: bool
  transceiverIdx :: "transceiver_idx option"

record 'd transceiver_info =
  port :: "int option"
  present :: "bool option"
  telemetry :: "'d option"

subsection \<open>utils.get_status_strs\<close>

record status_strs =
  admin_status :: string
  link_status :: string
  attr_present :: string

text \<open>
  Modelled from the spec: \<^verbatim>\<open>utils.get_status_strs\<close> lives in
  \<^verbatim>\<open>fboss/cli/utils/utils.py\<close>, which is not part of this source. The specification
  gives its labels: enabled is \<open>Enabled\<close> and disabled is \<open>Disabled\<close>; up is \<open>Up\<close>
  and down is \<open>Down\<close>; presence is \<open>Present\<close>, \<open>Absent\<close> or, when unknown,
  \<open>-\<close>. The colour hints and the speed string are left out: this file reads only the
  three labels below (\<^verbatim>\<open>attrs['present']\<close> is the field \<open>attr_present\<close>).
\<close>

definition get_status_strs :: "port_status \<Rightarrow> bool option \<Rightarrow> status_strs" where
  "get_status_strs status is_present =
     \<lparr> admin_status = (if enabled status then ''Enabled'' else ''Disabled''),
       link_status = (if up status then ''Up'' else ''Down''),
       attr_present = (case is_present of
                         None \<Rightarrow> ''-''
                       | Some True \<Rightarrow> ''Present''
                       | Some False \<Rightarrow> ''Absent'') \<rparr>"

subsection \<open>PortStatusDetailCmd\<close>

text \<open>
  The object's fields. \<open>t_to_p\<close> is the \<^verbatim>\<open>defaultdict(dict)\<close> from transceiver id
  to the dictionary from channel to port; \<open>info_resp\<close> is \<^verbatim>\<open>None\<close> until the
  transceiver service has answered.
\<close>

record 'd detail_cmd =
  port_speeds :: "(int \<times> int option) list"
  info_resp :: "(int \<times> 'd transceiver_info) list option"
  status_resp :: "(int \<times> port_status) list"
  t_to_p :: "(int \<times> (int \<times> int) list) list"
  transceiver :: "int list"
  verbose :: bool

text \<open>What is printed, one string for each \<^verbatim>\<open>print\<close>, and the exception that ended it.\<close>

type_synonym printed = "string list \<times> error option"

definition and_then :: "printed \<Rightarrow> printed \<Rightarrow> printed" where
  "and_then a b = (case snd a of Some e \<Rightarrow> a | None \<Rightarrow> (fst a @ fst b, snd b))"

text \<open>\<^verbatim>\<open>range(a, b)\<close>.\<close>

definition py_range :: "int \<Rightarrow> int \<Rightarrow> int list" where
  "py_range a b = [a..b - 1]"

text \<open>
  \<^verbatim>\<open>_get_port_channels\<close>: \<^verbatim>\<open>self._port_speeds[port]\<close> raises \<^verbatim>\<open>KeyError\<close> for a
  port the agent gave no info for; a speed that is \<^verbatim>\<open>None\<close> equals neither 20000 nor
  40000.
\<close>

definition get_port_channels ::
  "(int \<times> int option) list \<Rightarrow> int \<Rightarrow> transceiver_idx \<Rightarrow> error + int list" where
  "get_port_channels speeds p xcvr_info =
     (let start_channel = channelId xcvr_info in
      case map_of speeds p of
        None \<Rightarrow> Inl KeyError
      | Some speed \<Rightarrow>
          Inr (if speed = Some 20000 then py_range start_channel (start_channel + 2)
               else if speed = Some 40000 then py_range start_channel (start_channel + 4)
               else [start_channel]))"

text \<open>\<^verbatim>\<open>self._t_to_p[tid]\<close> and \<^verbatim>\<open>self._t_to_p[tid][ch] = port\<close> on the defaultdict.\<close>

definition t_to_p_get :: "(int \<times> (int \<times> int) list) list \<Rightarrow> int \<Rightarrow> (int \<times> int) list" where
  "t_to_p_get m tid = (case map_of m tid of None \<Rightarrow> [] | Some d \<Rightarrow> d)"

definition t_to_p_set ::
  "int \<Rightarrow> int \<Rightarrow> int \<Rightarrow> (int \<times> (int \<times> int) list) list \<Rightarrow> (int \<times> (int \<times> int) list) list" where
  "t_to_p_set tid p ch m = AList.update tid (AList.update ch p (t_to_p_get m tid)) m"

text \<open>
  \<^verbatim>\<open>_get_channel_detail\<close>: an explicit channel list that is not empty is used as it
  is; the loop then enters every channel, and the transceiver is noted once.
\<close>

definition get_channel_detail ::
  "int \<Rightarrow> port_status \<Rightarrow> 'd detail_cmd \<Rightarrow> error + 'd detail_cmd" where
  "get_channel_detail p status st =
     (case transceiverIdx status of
        None \<Rightarrow> Inl AttributeError
      | Some idx \<Rightarrow>
          (case (case channels idx of
                   None \<Rightarrow> get_port_channels (port_speeds st) p idx
                 | Some explicit \<Rightarrow>
                     (if explicit = [] then get_port_channels (port_speeds st) p idx
                      else Inr explicit)) of
             Inl e \<Rightarrow> Inl e
           | Inr chs \<Rightarrow>
               (let tid = transceiverId idx in
                Inr (st\<lparr> t_to_p := fold (t_to_p_set tid p) chs (t_to_p st),
                         transceiver := (if tid \<in> set (transceiver st) then transceiver st
                                         else transceiver st @ [tid]) \<rparr>))))"

text \<open>\<^verbatim>\<open>_get_dummy_status\<close>: the loop body, and the loop over the sorted items.\<close>

fun get_dummy_status_loop ::
  "(int \<times> port_status) list \<Rightarrow> (int \<times> 'd transceiver_info) list \<Rightarrow>
   (int \<times> 'd transceiver_info) list" where
  "get_dummy_status_loop [] infos = infos"
| "get_dummy_status_loop ((p, status) # rest) infos =
     (case transceiverIdx status of
        None \<Rightarrow> get_dummy_status_loop rest infos
      | Some idx \<Rightarrow>
          (if transceiverId idx \<in> fst ` set infos then get_dummy_status_loop rest infos
           else get_dummy_status_loop rest
                  (AList.update p \<lparr> port = Some p, present = Some False, telemetry = None \<rparr>
                     infos)))"

definition get_dummy_status :: "'d detail_cmd \<Rightarrow> error + 'd detail_cmd" where
  "get_dummy_status st =
     (case info_resp st of
        None \<Rightarrow>
          (if list_ex (\<lambda>(p, status). transceiverIdx status \<noteq> None) (status_resp st)
           then Inl AttributeError else Inr st)
      | Some infos \<Rightarrow>
          Inr (st\<lparr> info_resp :=
                     Some (get_dummy_status_loop (sort_key fst (status_resp st)) infos) \<rparr>))"

text \<open>\<^verbatim>\<open>_print_transceiver_ports\<close>: one line for every value of the channel dictionary.\<close>

definition port_line :: "int \<Rightarrow> status_strs \<Rightarrow> string" where
  "port_line p attrs =
     ''Port: '' @ rjust 2 CHR '' '' (str_int p) @
     ''  Status: '' @ ljust 8 CHR '' '' (admin_status attrs) @
     ''  Link: '' @ ljust 4 CHR '' '' (link_status attrs) @
     ''  Transceiver: '' @ attr_present attrs"

fun print_transceiver_ports_loop ::
  "(int \<times> port_status) list \<Rightarrow> bool option \<Rightarrow> int list \<Rightarrow> printed" where
  "print_transceiver_ports_loop resp pres [] = ([], None)"
| "print_transceiver_ports_loop resp pres (p # ps) =
     (case map_of resp p of
        None \<Rightarrow> ([], Some KeyError)
      | Some status \<Rightarrow>
          and_then ([port_line p (get_status_strs status pres)], None)
                   (print_transceiver_ports_loop resp pres ps))"

definition print_transceiver_ports ::
  "'d detail_cmd \<Rightarrow> (int \<times> int) list \<Rightarrow> 'd transceiver_info \<Rightarrow> printed" where
  "print_transceiver_ports st ch_to_port info =
     print_transceiver_ports_loop (status_resp st) (present info) (map snd ch_to_port)"

text \<open>
  \<^verbatim>\<open>_print_transceiver_details\<close>. What it prints for a transceiver whose \<^verbatim>\<open>present\<close>
  is not \<^verbatim>\<open>False\<close> (the header, the vendor, cable and settings blocks, the monitoring
  tables and the channel rows, all formatted floats over the thrift blocks above) is the
  parameter \<open>render\<close>, given the object, the channel dictionary and the record.
\<close>

definition print_transceiver_details ::
  "('d detail_cmd \<Rightarrow> (int \<times> int) list \<Rightarrow> 'd transceiver_info \<Rightarrow> printed) \<Rightarrow>
   'd detail_cmd \<Rightarrow> int \<Rightarrow> printed" where
  "print_transceiver_details render st tid =
     (case info_resp st of
        None \<Rightarrow> ([], Some TypeError)
      | Some infos \<Rightarrow>
          (case map_of infos tid of
             None \<Rightarrow> ([], Some KeyError)
           | Some info \<Rightarrow>
               (let ch_to_port = t_to_p_get (t_to_p st) tid in
                if present info = Some False then print_transceiver_ports st ch_to_port info
                else render st ch_to_port info)))"

text \<open>
  \<^verbatim>\<open>_print_port_detail\<close>. For a port with no transceiver index the code reads
  \<^verbatim>\<open>self._info_resp[status.transceiverIdx]\<close>, that is \<^verbatim>\<open>self._info_resp[None]\<close>,
  which no response of the service has as a key.
\<close>

fun print_port_detail_loop ::
  "('d detail_cmd \<Rightarrow> (int \<times> int) list \<Rightarrow> 'd transceiver_info \<Rightarrow> printed) \<Rightarrow>
   'd detail_cmd \<Rightarrow> (int \<times> port_status) list \<Rightarrow> int list \<Rightarrow> printed" where
  "print_port_detail_loop render st [] transceiver_printed = ([], None)"
| "print_port_detail_loop render st ((p, status) # rest) transceiver_printed =
     (case transceiverIdx status of
        Some idx \<Rightarrow>
          (let tid = transceiverId idx in
           and_then (if tid \<in> set transceiver_printed then ([], None)
                     else print_transceiver_details render st tid)
                    (print_port_detail_loop render st rest (transceiver_printed @ [tid])))
      | None \<Rightarrow>
          (case info_resp st of None \<Rightarrow> ([], Some TypeError) | Some infos \<Rightarrow> ([], Some KeyError)))"

definition print_port_detail ::
  "('d detail_cmd \<Rightarrow> (int \<times> int) list \<Rightarrow> 'd transceiver_info \<Rightarrow> printed) \<Rightarrow>
   'd detail_cmd \<Rightarrow> printed" where
  "print_port_detail render st =
     print_port_detail_loop render st (sort_key fst (status_resp st)) []"

text \<open>
  \<^verbatim>\<open>get_detail_status\<close>. \<open>getTransceiverInfo\<close> is the call to the transceiver
  service; only its \<^verbatim>\<open>TApplicationException\<close> is caught.
\<close>

fun get_channel_detail_loop ::
  "(int \<times> port_status) list \<Rightarrow> 'd detail_cmd \<Rightarrow> error + 'd detail_cmd" where
  "get_channel_detail_loop [] st = Inr st"
| "get_channel_detail_loop ((p, status) # rest) st =
     (if transceiverIdx status = None then get_channel_detail_loop rest st
      else (case get_channel_detail p status st of
              Inl e \<Rightarrow> Inl e
            | Inr st' \<Rightarrow> get_channel_detail_loop rest st'))"

definition get_detail_status ::
  "(int list \<Rightarrow> error + (int \<times> 'd transceiver_info) list) \<Rightarrow>
   ('d detail_cmd \<Rightarrow> (int \<times> int) list \<Rightarrow> 'd transceiver_info \<Rightarrow> printed) \<Rightarrow>
   'd detail_cmd \<Rightarrow> printed" where
  "get_detail_status getTransceiverInfo render st =
     (case get_channel_detail_loop (sort_key fst (status_resp st)) st of
        Inl e \<Rightarrow> ([], Some e)
      | Inr st1 \<Rightarrow>
          (if transceiver st1 = [] then ([], None)
           else (case getTransceiverInfo (transceiver st1) of
                   Inl e \<Rightarrow> (if e = TApplicationException then ([], None) else ([], Some e))
                 | Inr infos \<Rightarrow>
                     (case get_dummy_status (st1\<lparr> info_resp := Some infos \<rparr>) of
                        Inl e \<Rightarrow> ([], Some e)
                      | Inr st2 \<Rightarrow> print_port_detail render st2))))"

subsection \<open>The switch agent\<close>

record port_info =
  portId :: int
  speedMbps :: "int option"
  adminState :: int
  operState :: int
  vlans :: "int list option"
  name :: string
  fecEnabled :: "bool option"
  description :: "string option"

text \<open>
  In \<open>port_info\<close> the two states are the integers of the thrift enums;
  \<open>fecEnabled\<close> is \<open>None\<close> for a response that has no such attribute.
  The agent is a state of any type with the four calls this file makes; a call that
  raises returns \<open>Inl\<close>. What a command does is the list of its events, in order,
  the agent's state after it and the exception that ended it, if any; a call that
  raises has been issued and is in the list.
\<close>

record 's agent_client =
  getPortStatus :: "'s \<Rightarrow> int list \<Rightarrow> error + (int \<times> port_status) list"
  setPortState :: "'s \<Rightarrow> int \<Rightarrow> bool \<Rightarrow> error + 's"
  getAllPortInfo :: "'s \<Rightarrow> error + (int \<times> port_info) list"
  getPortInfo :: "'s \<Rightarrow> int \<Rightarrow> error + port_info"

datatype event = Print string | SetPortState int bool | Sleep nat

type_synonym 's run = "event list \<times> 's \<times> error option"

definition emit :: "event list \<Rightarrow> 's run \<Rightarrow> 's run" where
  "emit evs r = (case r of (evs', s, e) \<Rightarrow> (evs @ evs', s, e))"

subsection \<open>PortFlapCmd.flap_ports\<close>

definition skip_notice :: "int \<Rightarrow> string" where
  "skip_notice p = ''Port '' @ str_int p @ '' is disabled by configuration, cannot flap''"

fun flap_disable :: "'s agent_client \<Rightarrow> (int \<times> port_status) list \<Rightarrow> 's \<Rightarrow> 's run" where
  "flap_disable ag [] s = ([], s, None)"
| "flap_disable ag ((p, status) # rest) s =
     (if \<not> enabled status then emit [Print (skip_notice p)] (flap_disable ag rest s)
      else (case setPortState ag s p False of
              Inl e \<Rightarrow> ([Print (''Disabling port '' @ str_int p), SetPortState p False], s, Some e)
            | Inr s' \<Rightarrow>
                emit [Print (''Disabling port '' @ str_int p), SetPortState p False]
                  (flap_disable ag rest s')))"

fun flap_enable :: "'s agent_client \<Rightarrow> (int \<times> port_status) list \<Rightarrow> 's \<Rightarrow> 's run" where
  "flap_enable ag [] s = ([], s, None)"
| "flap_enable ag ((p, status) # rest) s =
     (if enabled status then
        (case setPortState ag s p True of
           Inl e \<Rightarrow> ([Print (''Enabling port '' @ str_int p), SetPortState p True], s, Some e)
         | Inr s' \<Rightarrow>
             emit [Print (''Enabling port '' @ str_int p), SetPortState p True]
               (flap_enable ag rest s'))
      else flap_enable ag rest s)"

definition flap_ports :: "'s agent_client \<Rightarrow> int list \<Rightarrow> 's \<Rightarrow> 's run" where
  "flap_ports ag ports s =
     (case getPortStatus ag s ports of
        Inl e \<Rightarrow> ([], s, Some e)
      | Inr resp \<Rightarrow>
          (case flap_disable ag resp s of
             (evs, s1, Some e) \<Rightarrow> (evs, s1, Some e)
           | (evs, s1, None) \<Rightarrow> emit (evs @ [Sleep 1]) (flap_enable ag resp s1)))"

subsection \<open>PortSetStatusCmd.set_status\<close>

fun set_status :: "'s agent_client \<Rightarrow> int list \<Rightarrow> bool \<Rightarrow> 's \<Rightarrow> 's run" where
  "set_status ag [] status s = ([], s, None)"
| "set_status ag (p # ports) status s =
     (let status_str = (if status then ''Enabling'' else ''Disabling'') in
      case setPortState ag s p status of
        Inl e \<Rightarrow> ([Print (status_str @ '' port '' @ str_int p), SetPortState p status], s, Some e)
      | Inr s' \<Rightarrow>
          emit [Print (status_str @ '' port '' @ str_int p), SetPortState p status]
            (set_status ag ports status s'))"

subsection \<open>PortDetailsCmd\<close>

text \<open>
  \<^verbatim>\<open>str.strip\<close> and \<^verbatim>\<open>str.join\<close>. A character is a code point below 256; the
  white space of \<^verbatim>\<open>str.strip\<close> among these is the list below, the two code points
  beyond ASCII, U+0085 and U+00A0, included.
\<close>

definition is_space :: "char \<Rightarrow> bool" where
  "is_space c \<longleftrightarrow>
     c \<in> set [CHR 0x09, CHR 0x0A, CHR 0x0B, CHR 0x0C, CHR 0x0D,
              CHR 0x1C, CHR 0x1D, CHR 0x1E, CHR 0x1F, CHR 0x20, CHR 0x85, CHR 0xA0]"

definition strip :: "string \<Rightarrow> string" where
  "strip s = rev (dropWhile is_space (rev (dropWhile is_space s)))"

fun join :: "string \<Rightarrow> string list \<Rightarrow> string" where
  "join sep [] = []"
| "join sep [x] = x"
| "join sep (x # y # rest) = x @ sep @ join sep (y # rest)"

text \<open>\<^verbatim>\<open>'{:.<50}{}'.format(label, value)\<close>.\<close>

definition detail_line :: "string \<Rightarrow> string \<Rightarrow> string" where
  "detail_line label v = ljust 50 CHR ''.'' label @ v"

text \<open>
  \<^verbatim>\<open>_print_port_details\<close>: the three \<^verbatim>\<open>print\<close> calls of one port, or the exception
  raised before the first of them. The info is asked of the agent when none is given;
  a speed that is \<^verbatim>\<open>None\<close> cannot be multiplied. The text of
  \<^verbatim>\<open>'{:.0f}'.format(speed)\<close> depends on the float that the division returned; it is
  the parameter \<open>fmt_0f\<close>, a function of the rational that float rounds.
\<close>

definition print_port_details ::
  "(rat \<Rightarrow> string) \<Rightarrow> 's agent_client \<Rightarrow> 's \<Rightarrow> int \<Rightarrow> port_info option \<Rightarrow> printed" where
  "print_port_details fmt_0f ag s port_id given =
     (case (case given of None \<Rightarrow> getPortInfo ag s port_id | Some info \<Rightarrow> Inr info) of
        Inl e \<Rightarrow> ([], Some e)
      | Inr info \<Rightarrow>
          (let admin_status = (if adminState info \<noteq> 0 then ''ENABLED'' else ''DISABLED'');
               oper_status = (if operState info \<noteq> 0 then ''UP'' else ''DOWN'')
           in case speedMbps info of
                None \<Rightarrow> ([], Some TypeError)
              | Some mbps \<Rightarrow>
                  (case convert_bps (mbps * 10 ^ 6) of
                     Inl e \<Rightarrow> ([], Some e)
                   | Inr (speed, suffix) \<Rightarrow>
                       (let vlan_strs = join '' ''
                              (map str_int (case vlans info of None \<Rightarrow> [] | Some vs \<Rightarrow> vs));
                            fec_status = (case fecEnabled info of
                                            None \<Rightarrow> ''N/A''
                                          | Some True \<Rightarrow> ''ENABLED''
                                          | Some False \<Rightarrow> ''DISABLED'')
                        in ([[],
                             join [CHR 0x0A]
                               [detail_line ''Name'' (strip (name info)),
                                detail_line ''Port ID'' (str_int (portId info)),
                                detail_line ''Admin State'' admin_status,
                                detail_line ''Link State'' oper_status,
                                detail_line ''Speed'' (fmt_0f speed @ '' '' @ suffix),
                                detail_line ''VLANs'' vlan_strs,
                                detail_line ''Forward Error Correction'' fec_status],
                             ljust 20 CHR ''.'' ''Description'' @
                               (case description info of None \<Rightarrow> [] | Some d \<Rightarrow> d)],
                            None)))))"

text \<open>
  The two loops of \<^verbatim>\<open>run\<close>: over the requested ports, and over the infos of all
  ports.
\<close>

fun print_requested ::
  "(rat \<Rightarrow> string) \<Rightarrow> 's agent_client \<Rightarrow> 's \<Rightarrow> int list \<Rightarrow> printed" where
  "print_requested fmt_0f ag s [] = ([], None)"
| "print_requested fmt_0f ag s (p # ports) =
     and_then (print_port_details fmt_0f ag s p None) (print_requested fmt_0f ag s ports)"

fun print_infos ::
  "(rat \<Rightarrow> string) \<Rightarrow> 's agent_client \<Rightarrow> 's \<Rightarrow> port_info list \<Rightarrow> printed" where
  "print_infos fmt_0f ag s [] = ([], None)"
| "print_infos fmt_0f ag s (info # all_ports) =
     and_then (print_port_details fmt_0f ag s (portId info) (Some info))
              (print_infos fmt_0f ag s all_ports)"

text \<open>
  \<^verbatim>\<open>PortDetailsCmd.run\<close>. \<^verbatim>\<open>utils.port_sort_fn\<close> is not part of this source and is
  the parameter \<open>port_sort_fn\<close>, a key into any linear order. Both handlers around
  \<^verbatim>\<open>getAllPortInfo\<close> build their message with \<^verbatim>\<open>'...' + e\<close>, a string plus an
  exception, so what leaves them is a \<^verbatim>\<open>TypeError\<close>.
\<close>

definition PortDetailsCmd_run ::
  "(rat \<Rightarrow> string) \<Rightarrow> (port_info \<Rightarrow> 'k::linorder) \<Rightarrow> 's agent_client \<Rightarrow> 's \<Rightarrow> int list \<Rightarrow>
   printed" where
  "PortDetailsCmd_run fmt_0f port_sort_fn ag s ports =
     (if ports \<noteq> [] then print_requested fmt_0f ag s ports
      else (case getAllPortInfo ag s of
              Inl e \<Rightarrow> ([], Some TypeError)
            | Inr resp \<Rightarrow>
                (if resp \<noteq> [] then
                   (let all_ports = sort_key port_sort_fn (map snd resp);
                        all_ports = filter (\<lambda>info. operState info = 1) all_ports
                    in print_infos fmt_0f ag s all_ports)
                 else ([''No Ports Found''], None))))"

subsection \<open>Reading a run\<close>

text \<open>
  The three strings \<^verbatim>\<open>_print_port_details\<close> prints for a port, given the label of its
  link state and the text of its speed: the empty line, the seven detail lines joined by
  newlines, and the description.
\<close>

definition details_block :: "port_info \<Rightarrow> string \<Rightarrow> string \<Rightarrow> string list" where
  "details_block info link speed_text =
     [[],
      detail_line ''Name'' (strip (name info)) @ [CHR 0x0A] @
      detail_line ''Port ID'' (str_int (portId info)) @ [CHR 0x0A] @
      detail_line ''Admin State'' (if adminState info = 0 then ''DISABLED'' else ''ENABLED'')
        @ [CHR 0x0A] @
      detail_line ''Link State'' link @ [CHR 0x0A] @
      detail_line ''Speed'' speed_text @ [CHR 0x0A] @
      detail_line ''VLANs''
        (join '' '' (map str_int (case vlans info of None \<Rightarrow> [] | Some vs \<Rightarrow> vs)))
        @ [CHR 0x0A] @
      detail_line ''Forward Error Correction''
        (case fecEnabled info of
           None \<Rightarrow> ''N/A'' | Some True \<Rightarrow> ''ENABLED'' | Some False \<Rightarrow> ''DISABLED''),
      ljust 20 CHR ''.'' ''Description'' @
        (case description info of None \<Rightarrow> [] | Some d \<Rightarrow> d)]"

text \<open>
  \<^verbatim>\<open>'{:.0f}'.format(x)\<close> for a float \<open>x\<close> that is exactly the rational: the nearest
  integer, a tie going to the even one, with the sign of a negative value kept when it
  rounds to zero. The speeds of the example below are such floats.
\<close>

definition round_half_even :: "rat \<Rightarrow> int" where
  "round_half_even r =
     (let f = \<lfloor>r\<rfloor>; d = r - of_int f in
      if d < 1 / 2 then f
      else if 1 / 2 < d then f + 1
      else if even f then f else f + 1)"

definition fmt_0f_exact :: "rat \<Rightarrow> string" where
  "fmt_0f_exact r =
     (if r < 0 then CHR ''-'' # str_nat (nat (- round_half_even r))
      else str_nat (nat (round_half_even r)))"

fun is_call :: "bool \<Rightarrow> event \<Rightarrow> bool" where
  "is_call v (SetPortState p b) = (b = v)"
| "is_call v (Print line) = False"
| "is_call v (Sleep n) = False"

fun is_print :: "event \<Rightarrow> bool" where
  "is_print (Print line) = True"
| "is_print (SetPortState p b) = False"
| "is_print (Sleep n) = False"

definition enabled_ports :: "(int \<times> port_status) list \<Rightarrow> int list" where
  "enabled_ports resp = map fst (filter (\<lambda>(p, status). enabled status) resp)"

subsection \<open>An agent with three ports\<close>

text \<open>
  Port 1 is disabled by configuration and down, port 2 is enabled and up, port 3 is
  enabled and down. Every call succeeds; the status of ports is answered in the agent's
  own order.
\<close>

definition example_port_status :: "(int \<times> port_status) list" where
  "example_port_status =
     [(1, \<lparr> enabled = False, up = False, transceiverIdx = None \<rparr>),
      (2, \<lparr> enabled = True, up = True, transceiverIdx = None \<rparr>),
      (3, \<lparr> enabled = True, up = False, transceiverIdx = None \<rparr>)]"

definition example_port_info :: "(int \<times> port_info) list" where
  "example_port_info =
     [(1, \<lparr> portId = 1, speedMbps = Some 10000, adminState = 0, operState = 0, vlans = Some [],
            name = ''eth1/1/1'', fecEnabled = None, description = None \<rparr>),
      (2, \<lparr> portId = 2, speedMbps = Some 40000, adminState = 1, operState = 1,
            vlans = Some [2001, 2002], name = ''eth1/2/1'', fecEnabled = Some False,
            description = Some ''uplink'' \<rparr>),
      (3, \<lparr> portId = 3, speedMbps = Some 2500, adminState = 1, operState = 0, vlans = None,
            name = ''eth1/3/1'', fecEnabled = Some True, description = Some [] \<rparr>)]"

definition example_agent :: "unit agent_client" where
  "example_agent =
     \<lparr> getPortStatus = (\<lambda>s ports. Inr (filter (\<lambda>(p, status). p \<in> set ports) example_port_status)),
       setPortState = (\<lambda>s p b. Inr s),
       getAllPortInfo = (\<lambda>s. Inr example_port_info),
       getPortInfo = (\<lambda>s p. case map_of example_port_info p of
                                None \<Rightarrow> Inl FbossBaseError
                              | Some info \<Rightarrow> Inr info) \<rparr>"

subsection \<open>A report on one port\<close>

text \<open>
  Port 5 is enabled and up and sits on channel 0 of transceiver 2. The transceiver
  service either does not know \<^verbatim>\<open>getTransceiverInfo\<close> or answers with no record for
  transceiver 2, an empty cage.
\<close>

definition example_status :: "(int \<times> port_status) list" where
  "example_status =
     [(5, \<lparr> enabled = True, up = True,
            transceiverIdx = Some \<lparr> channelId = 0, transceiverId = 2, channels = Some [0] \<rparr> \<rparr>)]"

definition example_cmd :: "unit detail_cmd" where
  "example_cmd =
     \<lparr> port_speeds = [(5, Some 10000)], info_resp = None, status_resp = example_status,
       t_to_p = [], transceiver = [], verbose = False \<rparr>"

definition unsupported_service :: "int list \<Rightarrow> error + (int \<times> unit transceiver_info) list" where
  "unsupported_service tids = Inl TApplicationException"

definition empty_cage_service :: "int list \<Rightarrow> error + (int \<times> unit transceiver_info) list" where
  "empty_cage_service tids = Inr []"

definition render_nothing ::
  "unit detail_cmd \<Rightarrow> (int \<times> int) list \<Rightarrow> unit transceiver_info \<Rightarrow> printed" where
  "render_nothing st ch_to_port info = ([], None)"

section \<open>Properties\<close>

subsection \<open>Bits per second\<close>

lemma float_limit_large: "10 ^ 300 < float_limit"
  by (simp add: float_limit_def)

lemma float_limit_pos: "1000000000000 < float_limit"
  using float_limit_large by simp

lemma float_overflows_div:
  "float_overflows (of_int a / numeral n) \<longleftrightarrow> float_limit * numeral n \<le> \<bar>a\<bar>"
proof -
  have "float_overflows (of_int a / numeral n) \<longleftrightarrow>
          (of_int float_limit :: rat) \<le> \<bar>of_int a\<bar> / numeral n"
    by (simp add: float_overflows_def)
  also have "\<dots> \<longleftrightarrow> (of_int float_limit :: rat) * numeral n \<le> \<bar>of_int a\<bar>"
    by (simp add: pos_le_divide_eq)
  also have "\<dots> \<longleftrightarrow> (of_int (float_limit * numeral n) :: rat) \<le> of_int \<bar>a\<bar>"
    by simp
  also have "\<dots> \<longleftrightarrow> float_limit * numeral n \<le> \<bar>a\<bar>"
    by (simp only: of_int_le_iff)
  finally show ?thesis .
qed

lemma convert_bps_small:
  "- (10 * float_limit) < bps \<Longrightarrow> bps < 1000 \<Longrightarrow>
     convert_bps bps = Inr (of_int bps / 10, ''bps'')"
  using float_limit_pos by (simp add: convert_bps_def float_overflows_div)

lemma convert_bps_kilo:
  "1000 \<le> bps \<Longrightarrow> bps < 1000000 \<Longrightarrow> convert_bps bps = Inr (of_int bps / 1000, ''Kbps'')"
  using float_limit_pos by (simp add: convert_bps_def float_overflows_div)

lemma convert_bps_mega:
  "1000000 \<le> bps \<Longrightarrow> bps < 1000000000 \<Longrightarrow>
     convert_bps bps = Inr (of_int bps / 1000000, ''Mbps'')"
  using float_limit_pos by (simp add: convert_bps_def float_overflows_div)

lemma convert_bps_giga:
  "1000000000 \<le> bps \<Longrightarrow> bps < 1000000000000 \<Longrightarrow>
     convert_bps bps = Inr (of_int bps / 1000000000, ''Gbps'')"
  using float_limit_pos by (simp add: convert_bps_def float_overflows_div)

lemma convert_bps_tera:
  "1000000000000 \<le> bps \<Longrightarrow> bps < 1000 * float_limit \<Longrightarrow>
     convert_bps bps = Inl AssertionError"
  using float_limit_pos by (simp add: convert_bps_def float_overflows_div)

lemma convert_bps_overflow_high:
  "1000 * float_limit \<le> bps \<Longrightarrow> convert_bps bps = Inl OverflowError"
  using float_limit_pos by (simp add: convert_bps_def float_overflows_div)

lemma convert_bps_overflow_low:
  "bps \<le> - (10 * float_limit) \<Longrightarrow> convert_bps bps = Inl OverflowError"
  using float_limit_pos by (simp add: convert_bps_def float_overflows_div)

text \<open>
  C5. The four inputs of the specification, evaluated on the code: 10^9, 500000 and
  10^6 give \<open>(1, Gbps)\<close>, \<open>(500, Kbps)\<close> and \<open>(1, Mbps)\<close>, but 999 gives
  \<open>(99.9, bps)\<close> and not \<open>(999.0, bps)\<close>: the first entry of the table divides by
  \<open>10 ^ 1\<close>.
\<close>

theorem convert_bps_spec_inputs:
  "convert_bps 1000000000 = Inr (1, ''Gbps'') \<and>
   convert_bps 500000 = Inr (500, ''Kbps'') \<and>
   convert_bps 1000000 = Inr (1, ''Mbps'') \<and>
   convert_bps 999 = Inr (999 / 10, ''bps'') \<and>
   convert_bps 999 \<noteq> Inr (999, ''bps'')"
  using convert_bps_giga [of 1000000000] convert_bps_kilo [of 500000]
        convert_bps_mega [of 1000000] convert_bps_small [of 999] float_limit_pos
  by simp

text \<open>
  C6, as stated, fails: the conversion of 10^12 bits per second raises
  \<^verbatim>\<open>AssertionError\<close>.
\<close>

theorem convert_bps_raises_at_tera:
  "convert_bps 1000000000000 = Inl AssertionError"
  using convert_bps_tera [of 1000000000000] float_limit_pos by simp

text \<open>
  C6, amended, for every integer input: below 10^12 bits per second, and above
  \<open>- 10 * float_limit\<close>, the conversion gives a value and one of the four suffixes,
  so it does for every input from 0 to 10^12; from 10^12 on it raises
  \<^verbatim>\<open>AssertionError\<close>, as long as a thousandth of the input is a finite float; beyond
  these bounds, on either side, the first division raises \<^verbatim>\<open>OverflowError\<close>.
\<close>

theorem convert_bps_total_below_tera:
  "(- (10 * float_limit) < bps \<and> bps < 1000000000000 \<longrightarrow>
      (\<exists>v u. convert_bps bps = Inr (v, u) \<and> u \<in> {''bps'', ''Kbps'', ''Mbps'', ''Gbps''})) \<and>
   (1000000000000 \<le> bps \<and> bps < 1000 * float_limit \<longrightarrow>
      convert_bps bps = Inl AssertionError) \<and>
   (bps \<le> - (10 * float_limit) \<or> 1000 * float_limit \<le> bps \<longrightarrow>
      convert_bps bps = Inl OverflowError)"
proof (intro conjI impI)
  assume range: "- (10 * float_limit) < bps \<and> bps < 1000000000000"
  consider "bps < 1000" | "1000 \<le> bps" "bps < 1000000"
    | "1000000 \<le> bps" "bps < 1000000000" | "1000000000 \<le> bps"
    by linarith
  then show "\<exists>v u. convert_bps bps = Inr (v, u) \<and> u \<in> {''bps'', ''Kbps'', ''Mbps'', ''Gbps''}"
  proof cases
    case 1
    with range have "convert_bps bps = Inr (of_int bps / 10, ''bps'')"
      by (simp add: convert_bps_small)
    then show ?thesis by blast
  next
    case 2
    then have "convert_bps bps = Inr (of_int bps / 1000, ''Kbps'')"
      by (rule convert_bps_kilo)
    then show ?thesis by blast
  next
    case 3
    then have "convert_bps bps = Inr (of_int bps / 1000000, ''Mbps'')"
      by (rule convert_bps_mega)
    then show ?thesis by blast
  next
    case 4
    with range have "convert_bps bps = Inr (of_int bps / 1000000000, ''Gbps'')"
      by (simp add: convert_bps_giga)
    then show ?thesis by blast
  qed
next
  assume "1000000000000 \<le> bps \<and> bps < 1000 * float_limit"
  then show "convert_bps bps = Inl AssertionError" by (simp add: convert_bps_tera)
next
  assume "bps \<le> - (10 * float_limit) \<or> 1000 * float_limit \<le> bps"
  then show "convert_bps bps = Inl OverflowError"
    using convert_bps_overflow_low convert_bps_overflow_high by blast
qed

theorem convert_bps_total_below_tera_witness:
  "(\<exists>v u. convert_bps 40000000000 = Inr (v, u) \<and> u \<in> {''bps'', ''Kbps'', ''Mbps'', ''Gbps''}) \<and>
   (\<exists>v u. convert_bps 0 = Inr (v, u) \<and> u \<in> {''bps'', ''Kbps'', ''Mbps'', ''Gbps''}) \<and>
   convert_bps 2000000000000 = Inl AssertionError \<and>
   convert_bps (10 ^ 312) = Inl OverflowError \<and>
   convert_bps (- (10 ^ 400)) = Inl OverflowError"
proof -
  have a: "- (10 * float_limit) < 40000000000 \<and> (40000000000 :: int) < 1000000000000"
    using float_limit_pos by simp
  have z: "- (10 * float_limit) < 0 \<and> (0 :: int) < 1000000000000"
    using float_limit_pos by simp
  have b: "(1000000000000 :: int) \<le> 2000000000000 \<and> 2000000000000 < 1000 * float_limit"
    using float_limit_pos by simp
  have "1000 * float_limit \<le> 10 ^ 312"
    by (simp add: float_limit_def)
  then have c: "10 ^ 312 \<le> - (10 * float_limit) \<or> 1000 * float_limit \<le> 10 ^ 312"
    by (rule disjI2)
  have "- (10 ^ 400) \<le> - (10 * float_limit)"
    by (simp add: float_limit_def)
  then have d: "- (10 ^ 400) \<le> - (10 * float_limit) \<or> 1000 * float_limit \<le> - (10 ^ 400)"
    by (rule disjI1)
  from convert_bps_total_below_tera [of 40000000000] a
  have one: "\<exists>v u. convert_bps 40000000000 = Inr (v, u) \<and>
                   u \<in> {''bps'', ''Kbps'', ''Mbps'', ''Gbps''}"
    by blast
  from convert_bps_total_below_tera [of 0] z
  have zero: "\<exists>v u. convert_bps 0 = Inr (v, u) \<and>
                   u \<in> {''bps'', ''Kbps'', ''Mbps'', ''Gbps''}"
    by blast
  from convert_bps_total_below_tera [of 2000000000000] b
  have two: "convert_bps 2000000000000 = Inl AssertionError"
    by blast
  from convert_bps_total_below_tera [of "10 ^ 312"] c
  have three: "convert_bps (10 ^ 312) = Inl OverflowError"
    by blast
  from convert_bps_total_below_tera [of "- (10 ^ 400)"] d
  have four: "convert_bps (- (10 ^ 400)) = Inl OverflowError"
    by blast
  from one zero two three four show ?thesis by blast
qed

subsection \<open>Channels of a port\<close>

lemma py_range_2: "py_range c (c + 2) = [c, c + 1]"
  by (simp add: py_range_def upto_rec1)

lemma py_range_4: "py_range c (c + 4) = [c, c + 1, c + 2, c + 3]"
  by (simp add: py_range_def upto_rec1)

text \<open>
  C1. For a port with an entry in the speed table, \<^verbatim>\<open>_get_port_channels\<close> returns the
  two channels from the starting index on at speed 20000, the four channels from the
  starting index on at speed 40000, and the starting index alone at every other speed,
  0 and \<^verbatim>\<open>None\<close> among them; each list is ascending.
\<close>

theorem get_port_channels_by_speed:
  assumes "map_of speeds p = Some speed"
  shows "(speed = Some 20000 \<longrightarrow>
            get_port_channels speeds p idx = Inr [channelId idx, channelId idx + 1]) \<and>
         (speed = Some 40000 \<longrightarrow>
            get_port_channels speeds p idx =
              Inr [channelId idx, channelId idx + 1, channelId idx + 2, channelId idx + 3]) \<and>
         (speed \<noteq> Some 20000 \<and> speed \<noteq> Some 40000 \<longrightarrow>
            get_port_channels speeds p idx = Inr [channelId idx])"
  using assms by (simp add: get_port_channels_def py_range_2 py_range_4 Let_def)

theorem get_port_channels_by_speed_witness:
  "get_port_channels [(1, Some 20000), (2, Some 40000), (3, Some 10000), (4, None), (5, Some 0)] 1
      \<lparr>channelId = 2, transceiverId = 7, channels = None\<rparr> = Inr [2, 3] \<and>
   get_port_channels [(1, Some 20000), (2, Some 40000), (3, Some 10000), (4, None), (5, Some 0)] 2
      \<lparr>channelId = 0, transceiverId = 7, channels = None\<rparr> = Inr [0, 1, 2, 3] \<and>
   get_port_channels [(1, Some 20000), (2, Some 40000), (3, Some 10000), (4, None), (5, Some 0)] 4
      \<lparr>channelId = 3, transceiverId = 7, channels = None\<rparr> = Inr [3]"
  using get_port_channels_by_speed
          [of "[(1, Some 20000), (2, Some 40000), (3, Some 10000), (4, None), (5, Some 0)]" 1
              "Some 20000" "\<lparr>channelId = 2, transceiverId = 7, channels = None\<rparr>"]
        get_port_channels_by_speed
          [of "[(1, Some 20000), (2, Some 40000), (3, Some 10000), (4, None), (5, Some 0)]" 2
              "Some 40000" "\<lparr>channelId = 0, transceiverId = 7, channels = None\<rparr>"]
        get_port_channels_by_speed
          [of "[(1, Some 20000), (2, Some 40000), (3, Some 10000), (4, None), (5, Some 0)]" 4
              "None" "\<lparr>channelId = 3, transceiverId = 7, channels = None\<rparr>"]
  by simp

lemma get_port_channels_unknown_port:
  "map_of speeds p = None \<Longrightarrow> get_port_channels speeds p idx = Inl KeyError"
  by (simp add: get_port_channels_def)

subsection \<open>The channel dictionary\<close>

lemma t_to_p_get_set:
  "t_to_p_get (t_to_p_set tid p ch m) t =
     (if t = tid then AList.update ch p (t_to_p_get m tid) else t_to_p_get m t)"
  by (simp add: t_to_p_get_def t_to_p_set_def update_conv')

lemma t_to_p_fold_other:
  "t \<noteq> tid \<Longrightarrow> t_to_p_get (fold (t_to_p_set tid p) chs m) t = t_to_p_get m t"
  by (induction chs arbitrary: m) (simp_all add: t_to_p_get_set)

lemma t_to_p_fold_same:
  "map_of (t_to_p_get (fold (t_to_p_set tid p) chs m) tid) ch =
     (if ch \<in> set chs then Some p else map_of (t_to_p_get m tid) ch)"
  by (induction chs arbitrary: m) (simp_all add: t_to_p_get_set update_conv')

text \<open>
  C8. When the transceiver index of a port status carries a channel list that is not
  empty, \<^verbatim>\<open>_get_channel_detail\<close> succeeds whatever the speed table holds (so the
  derivation from the speed, which reads that table, has no part in it), and the
  transceiver's channel dictionary maps exactly the channels of the list to the port,
  the other channels staying as they were. When the list is \<^verbatim>\<open>None\<close> or empty, the
  channels entered are those \<^verbatim>\<open>_get_port_channels\<close> derives, and its exception is
  the call's exception.
\<close>

theorem explicit_channels_authoritative:
  assumes "transceiverIdx status = Some idx"
  shows "(channels idx = Some chs \<and> chs \<noteq> [] \<longrightarrow>
            (\<exists>st'. (\<forall>speeds. get_channel_detail p status (st\<lparr>port_speeds := speeds\<rparr>)
                                = Inr (st'\<lparr>port_speeds := speeds\<rparr>)) \<and>
                   t_to_p st' = fold (t_to_p_set (transceiverId idx) p) chs (t_to_p st) \<and>
                   (\<forall>ch. map_of (t_to_p_get (t_to_p st') (transceiverId idx)) ch =
                           (if ch \<in> set chs then Some p
                            else map_of (t_to_p_get (t_to_p st) (transceiverId idx)) ch)))) \<and>
         (channels idx = None \<or> channels idx = Some [] \<longrightarrow>
            get_channel_detail p status st =
              (case get_port_channels (port_speeds st) p idx of
                 Inl e \<Rightarrow> Inl e
               | Inr derived \<Rightarrow>
                   Inr (st\<lparr> t_to_p := fold (t_to_p_set (transceiverId idx) p) derived (t_to_p st),
                            transceiver :=
                              (if transceiverId idx \<in> set (transceiver st) then transceiver st
                               else transceiver st @ [transceiverId idx]) \<rparr>)))"
proof (intro conjI impI)
  assume ex: "channels idx = Some chs \<and> chs \<noteq> []"
  let ?st' = "st\<lparr> t_to_p := fold (t_to_p_set (transceiverId idx) p) chs (t_to_p st),
                   transceiver := (if transceiverId idx \<in> set (transceiver st) then transceiver st
                                   else transceiver st @ [transceiverId idx]) \<rparr>"
  have "\<forall>speeds. get_channel_detail p status (st\<lparr>port_speeds := speeds\<rparr>)
                   = Inr (?st'\<lparr>port_speeds := speeds\<rparr>)"
    using assms ex by (simp add: get_channel_detail_def Let_def)
  moreover have "t_to_p ?st' = fold (t_to_p_set (transceiverId idx) p) chs (t_to_p st)"
    by simp
  moreover have "\<forall>ch. map_of (t_to_p_get (t_to_p ?st') (transceiverId idx)) ch =
                           (if ch \<in> set chs then Some p
                            else map_of (t_to_p_get (t_to_p st) (transceiverId idx)) ch)"
    by (simp add: t_to_p_fold_same)
  ultimately show "\<exists>st'. (\<forall>speeds. get_channel_detail p status (st\<lparr>port_speeds := speeds\<rparr>)
                                = Inr (st'\<lparr>port_speeds := speeds\<rparr>)) \<and>
                   t_to_p st' = fold (t_to_p_set (transceiverId idx) p) chs (t_to_p st) \<and>
                   (\<forall>ch. map_of (t_to_p_get (t_to_p st') (transceiverId idx)) ch =
                           (if ch \<in> set chs then Some p
                            else map_of (t_to_p_get (t_to_p st) (transceiverId idx)) ch))"
    by blast
next
  assume "channels idx = None \<or> channels idx = Some []"
  then show "get_channel_detail p status st =
              (case get_port_channels (port_speeds st) p idx of
                 Inl e \<Rightarrow> Inl e
               | Inr derived \<Rightarrow>
                   Inr (st\<lparr> t_to_p := fold (t_to_p_set (transceiverId idx) p) derived (t_to_p st),
                            transceiver :=
                              (if transceiverId idx \<in> set (transceiver st) then transceiver st
                               else transceiver st @ [transceiverId idx]) \<rparr>))"
    using assms by (auto simp: get_channel_detail_def Let_def split: sum.splits)
qed

theorem explicit_channels_authoritative_witness:
  "(\<exists>st'. get_channel_detail 5
       \<lparr> enabled = True, up = True,
         transceiverIdx = Some \<lparr> channelId = 2, transceiverId = 7, channels = Some [2, 3] \<rparr> \<rparr>
       (\<lparr> port_speeds = [], info_resp = None, status_resp = [], t_to_p = [],
          transceiver = [], verbose = False \<rparr> :: unit detail_cmd) = Inr st' \<and>
       t_to_p st' = [(7, [(2, 5), (3, 5)])]) \<and>
   get_channel_detail 5
       \<lparr> enabled = True, up = True,
         transceiverIdx = Some \<lparr> channelId = 2, transceiverId = 7, channels = None \<rparr> \<rparr>
       (\<lparr> port_speeds = [], info_resp = None, status_resp = [], t_to_p = [],
          transceiver = [], verbose = False \<rparr> :: unit detail_cmd) = Inl KeyError"
proof -
  let ?st = "\<lparr> port_speeds = [], info_resp = None, status_resp = [], t_to_p = [],
               transceiver = [], verbose = False \<rparr> :: unit detail_cmd"
  let ?idx = "\<lparr> channelId = 2, transceiverId = 7, channels = Some [2, 3] \<rparr>"
  let ?none = "\<lparr> channelId = 2, transceiverId = 7, channels = None \<rparr>"
  have "transceiverIdx \<lparr> enabled = True, up = True, transceiverIdx = Some ?idx \<rparr> = Some ?idx"
    by simp
  from explicit_channels_authoritative [OF this, of "[2, 3]" 5 ?st]
  obtain st' where
    all: "\<forall>speeds. get_channel_detail 5 \<lparr> enabled = True, up = True, transceiverIdx = Some ?idx \<rparr>
                      (?st\<lparr>port_speeds := speeds\<rparr>) = Inr (st'\<lparr>port_speeds := speeds\<rparr>)"
    and tp: "t_to_p st' = fold (t_to_p_set 7 5) [2, 3] []"
    by auto
  from all have "get_channel_detail 5 \<lparr> enabled = True, up = True, transceiverIdx = Some ?idx \<rparr>
                   (?st\<lparr>port_speeds := []\<rparr>) = Inr (st'\<lparr>port_speeds := []\<rparr>)"
    by blast
  then have one: "get_channel_detail 5 \<lparr> enabled = True, up = True, transceiverIdx = Some ?idx \<rparr>
                    ?st = Inr (st'\<lparr>port_speeds := []\<rparr>)"
    by simp
  have two: "t_to_p (st'\<lparr>port_speeds := []\<rparr>) = [(7, [(2, 5), (3, 5)])]"
    using tp by (simp add: t_to_p_set_def t_to_p_get_def)
  have "transceiverIdx \<lparr> enabled = True, up = True, transceiverIdx = Some ?none \<rparr> = Some ?none"
    by simp
  from explicit_channels_authoritative [OF this, of "[]" 5 ?st]
  have three: "get_channel_detail 5 \<lparr> enabled = True, up = True, transceiverIdx = Some ?none \<rparr>
                 ?st = Inl KeyError"
    by (simp add: get_port_channels_def)
  from one two three show ?thesis by blast
qed

subsection \<open>The detailed report\<close>

text \<open>
  C4, as stated, fails: with a transceiver service that raises
  \<^verbatim>\<open>TApplicationException\<close>, the report on port 5 returns without a line printed.
\<close>

theorem unsupported_service_prints_no_line:
  "get_detail_status unsupported_service render_nothing example_cmd = ([], None) \<and>
   map fst (status_resp example_cmd) = [5]"
  by (simp add: get_detail_status_def example_cmd_def example_status_def unsupported_service_def
        get_channel_detail_def Let_def t_to_p_set_def t_to_p_get_def)

text \<open>
  C4, amended: when the transceiver service raises \<^verbatim>\<open>TApplicationException\<close>,
  \<^verbatim>\<open>get_detail_status\<close> catches it and returns with nothing printed, for any set of
  ports; the only exception it can end with is the one of the channel pass before the
  call.
\<close>

theorem unsupported_telemetry_prints_nothing:
  assumes "\<forall>tids. getTransceiverInfo tids = Inl TApplicationException"
  shows "get_detail_status getTransceiverInfo render st =
           (case get_channel_detail_loop (sort_key fst (status_resp st)) st of
              Inl e \<Rightarrow> ([], Some e)
            | Inr st1 \<Rightarrow> ([], None))"
  using assms by (simp add: get_detail_status_def split: sum.splits)

theorem unsupported_telemetry_prints_nothing_witness:
  "get_detail_status unsupported_service render_nothing example_cmd =
           (case get_channel_detail_loop (sort_key fst (status_resp example_cmd)) example_cmd of
              Inl e \<Rightarrow> ([], Some e)
            | Inr st1 \<Rightarrow> ([], None)) \<and>
   (\<exists>st1. get_channel_detail_loop (sort_key fst (status_resp example_cmd)) example_cmd = Inr st1)"
  using unsupported_telemetry_prints_nothing [of unsupported_service render_nothing example_cmd]
  by (simp add: unsupported_service_def example_cmd_def example_status_def
        get_channel_detail_def Let_def)

text \<open>
  C7, evaluated on the code: the service has no record for transceiver 2, whose channel 0
  serves port 5. \<^verbatim>\<open>_get_dummy_status\<close> files the placeholder under the port, 5, and
  not under the transceiver, 2; \<^verbatim>\<open>_print_transceiver_details\<close> then reads
  \<^verbatim>\<open>self._info_resp[2]\<close> and the report ends in \<^verbatim>\<open>KeyError\<close> with no line printed.
\<close>

theorem empty_cage_key_error:
  "get_detail_status empty_cage_service render_nothing example_cmd = ([], Some KeyError) \<and>
   get_dummy_status_loop example_status [] =
     [(5, \<lparr> port = Some 5, present = Some False, telemetry = None \<rparr>)]"
  by (simp add: get_detail_status_def example_cmd_def example_status_def empty_cage_service_def
        get_channel_detail_def Let_def t_to_p_set_def t_to_p_get_def get_dummy_status_def
        print_port_detail_def print_transceiver_details_def and_then_def)

subsection \<open>Milliwatts to dBm\<close>

text \<open>
  C10. The conversion returns 0 at 0, without taking a logarithm, and ten times the
  decimal logarithm at every positive input; so it returns at every input that is not
  negative.
\<close>

theorem mw_to_dbm_total:
  "mw_to_dbm 0 = Inr 0 \<and>
   (0 < mw \<longrightarrow> mw_to_dbm mw = Inr (10 * log 10 mw)) \<and>
   (0 \<le> mw \<longrightarrow> (\<exists>dbm. mw_to_dbm mw = Inr dbm))"
  by (simp add: mw_to_dbm_def)

theorem mw_to_dbm_total_witness:
  "mw_to_dbm 0 = Inr 0 \<and> mw_to_dbm 10 = Inr 10 \<and> (\<exists>dbm. mw_to_dbm 10 = Inr dbm)"
  using mw_to_dbm_total [of 10] by simp

subsection \<open>Flapping ports\<close>

lemma emit_eq:
  "emit evs r = (evs', s', e) \<longleftrightarrow> (\<exists>tl. r = (tl, s', e) \<and> evs' = evs @ tl)"
  by (cases r) (auto simp: emit_def)

lemma flap_disable_events:
  "flap_disable ag resp s = (evs, s', e) \<Longrightarrow> ev \<in> set evs \<Longrightarrow> ev \<noteq> Sleep n \<and> \<not> is_call True ev"
proof (induction resp arbitrary: s evs)
  case Nil
  then show ?case by simp
next
  case (Cons a resp)
  obtain p status where a: "a = (p, status)" by (cases a)
  show ?case
  proof (cases "enabled status")
    case False
    with Cons.prems a obtain tl where "flap_disable ag resp s = (tl, s', e)"
      and "evs = Print (skip_notice p) # tl"
      by (auto simp: emit_eq)
    with Cons.IH Cons.prems(2) show ?thesis by auto
  next
    case True
    show ?thesis
    proof (cases "setPortState ag s p False")
      case (Inl err)
      with True Cons.prems a show ?thesis by auto
    next
      case (Inr s1)
      with True Cons.prems a obtain tl where "flap_disable ag resp s1 = (tl, s', e)"
        and "evs = Print (''Disabling port '' @ str_int p) # SetPortState p False # tl"
        by (auto simp: emit_eq)
      with Cons.IH Cons.prems(2) show ?thesis by auto
    qed
  qed
qed

lemma flap_enable_events:
  "flap_enable ag resp s = (evs, s', e) \<Longrightarrow> ev \<in> set evs \<Longrightarrow> ev \<noteq> Sleep n \<and> \<not> is_call False ev"
proof (induction resp arbitrary: s evs)
  case Nil
  then show ?case by simp
next
  case (Cons a resp)
  obtain p status where a: "a = (p, status)" by (cases a)
  show ?case
  proof (cases "enabled status")
    case False
    with Cons.prems a have "flap_enable ag resp s = (evs, s', e)" by simp
    with Cons.IH Cons.prems(2) show ?thesis by blast
  next
    case True
    show ?thesis
    proof (cases "setPortState ag s p True")
      case (Inl err)
      with True Cons.prems a show ?thesis by auto
    next
      case (Inr s1)
      with True Cons.prems a obtain tl where "flap_enable ag resp s1 = (tl, s', e)"
        and "evs = Print (''Enabling port '' @ str_int p) # SetPortState p True # tl"
        by (auto simp: emit_eq)
      with Cons.IH Cons.prems(2) show ?thesis by auto
    qed
  qed
qed

lemma flap_disable_calls:
  "flap_disable ag resp s = (evs, s', None) \<Longrightarrow>
     filter (\<lambda>ev. \<not> is_print ev) evs = map (\<lambda>p. SetPortState p False) (enabled_ports resp)"
proof (induction resp arbitrary: s evs)
  case Nil
  then show ?case by (simp add: enabled_ports_def)
next
  case (Cons a resp)
  obtain p status where a: "a = (p, status)" by (cases a)
  show ?case
  proof (cases "enabled status")
    case False
    with Cons.prems a obtain tl where "flap_disable ag resp s = (tl, s', None)"
      and "evs = Print (skip_notice p) # tl"
      by (auto simp: emit_eq)
    with Cons.IH False a show ?thesis by (simp add: enabled_ports_def)
  next
    case True
    show ?thesis
    proof (cases "setPortState ag s p False")
      case (Inl err)
      with True Cons.prems a show ?thesis by auto
    next
      case (Inr s1)
      with True Cons.prems a obtain tl where "flap_disable ag resp s1 = (tl, s', None)"
        and "evs = Print (''Disabling port '' @ str_int p) # SetPortState p False # tl"
        by (auto simp: emit_eq)
      with Cons.IH True a show ?thesis by (simp add: enabled_ports_def)
    qed
  qed
qed

lemma flap_enable_calls:
  "flap_enable ag resp s = (evs, s', None) \<Longrightarrow>
     filter (\<lambda>ev. \<not> is_print ev) evs = map (\<lambda>p. SetPortState p True) (enabled_ports resp)"
proof (induction resp arbitrary: s evs)
  case Nil
  then show ?case by (simp add: enabled_ports_def)
next
  case (Cons a resp)
  obtain p status where a: "a = (p, status)" by (cases a)
  show ?case
  proof (cases "enabled status")
    case False
    with Cons.prems a have "flap_enable ag resp s = (evs, s', None)" by simp
    with Cons.IH False a show ?thesis by (simp add: enabled_ports_def)
  next
    case True
    show ?thesis
    proof (cases "setPortState ag s p True")
      case (Inl err)
      with True Cons.prems a show ?thesis by auto
    next
      case (Inr s1)
      with True Cons.prems a obtain tl where "flap_enable ag resp s1 = (tl, s', None)"
        and "evs = Print (''Enabling port '' @ str_int p) # SetPortState p True # tl"
        by (auto simp: emit_eq)
      with Cons.IH True a show ?thesis by (simp add: enabled_ports_def)
    qed
  qed
qed

text \<open>
  The shape of a flap: the disabling pass, then, if that did not raise, the pause and
  the enabling pass.
\<close>

lemma flap_ports_shape:
  assumes "flap_ports ag ports s = (evs, s', e)"
  shows "(e \<noteq> None \<and> (\<forall>ev \<in> set evs. \<not> is_call True ev)) \<or>
         (\<exists>resp pre s1 post.
            getPortStatus ag s ports = Inr resp \<and>
            flap_disable ag resp s = (pre, s1, None) \<and>
            flap_enable ag resp s1 = (post, s', e) \<and>
            evs = pre @ Sleep 1 # post)"
proof (cases "getPortStatus ag s ports")
  case (Inl err)
  with assms show ?thesis by (auto simp: flap_ports_def)
next
  case (Inr resp)
  obtain pre s1 e1 where d: "flap_disable ag resp s = (pre, s1, e1)"
    by (cases "flap_disable ag resp s") auto
  show ?thesis
  proof (cases e1)
    case (Some err)
    with assms Inr d have "evs = pre" "e = Some err" by (auto simp: flap_ports_def)
    with d Some show ?thesis using flap_disable_events [OF d] by auto
  next
    case None
    with assms Inr d obtain post where "flap_enable ag resp s1 = (post, s', e)"
      and "evs = (pre @ [Sleep 1]) @ post"
      by (auto simp: flap_ports_def emit_eq)
    with Inr d None show ?thesis by auto
  qed
qed

text \<open>
  C2. In every flap, whatever the ports asked for and in whatever order, and whether or
  not a call raises on the way, a call \<^verbatim>\<open>setPortState(p, False)\<close> and a call
  \<^verbatim>\<open>setPortState(q, True)\<close> have the one-second sleep between them, the disabling
  call first. A flap that runs to its end issues, apart from what it prints, exactly the
  disabling calls for the ports reported enabled, the sleep, and the enabling calls for
  the same ports.
\<close>

theorem flap_disables_before_enabling:
  assumes run: "flap_ports ag ports s = (evs, s', e)"
  shows "(\<forall>i j p q. i < length evs \<and> j < length evs \<and>
            evs ! i = SetPortState p False \<and> evs ! j = SetPortState q True \<longrightarrow>
            (\<exists>k. i < k \<and> k < j \<and> evs ! k = Sleep 1)) \<and>
         (\<forall>resp. getPortStatus ag s ports = Inr resp \<and> e = None \<longrightarrow>
            filter (\<lambda>ev. \<not> is_print ev) evs =
              map (\<lambda>p. SetPortState p False) (enabled_ports resp) @
              Sleep 1 # map (\<lambda>p. SetPortState p True) (enabled_ports resp))"
proof (intro conjI allI impI)
  fix i j p q
  assume ij: "i < length evs \<and> j < length evs \<and>
            evs ! i = SetPortState p False \<and> evs ! j = SetPortState q True"
  from flap_ports_shape [OF run]
  show "\<exists>k. i < k \<and> k < j \<and> evs ! k = Sleep 1"
  proof
    assume "e \<noteq> None \<and> (\<forall>ev \<in> set evs. \<not> is_call True ev)"
    moreover from ij have "evs ! j \<in> set evs" by (metis nth_mem)
    moreover from ij have "is_call True (evs ! j)" by simp
    ultimately show ?thesis by blast
  next
    assume "\<exists>resp pre s1 post.
            getPortStatus ag s ports = Inr resp \<and>
            flap_disable ag resp s = (pre, s1, None) \<and>
            flap_enable ag resp s1 = (post, s', e) \<and>
            evs = pre @ Sleep 1 # post"
    then obtain resp pre s1 post where
      d: "flap_disable ag resp s = (pre, s1, None)" and
      en: "flap_enable ag resp s1 = (post, s', e)" and
      evs: "evs = pre @ Sleep 1 # post"
      by blast
    have i_pre: "i < length pre"
    proof (rule ccontr)
      assume "\<not> i < length pre"
      then have "i = length pre \<or> (length pre < i)" by linarith
      then show False
      proof
        assume "i = length pre"
        with evs ij show False by simp
      next
        assume gt: "length pre < i"
        with evs ij have "i - Suc (length pre) < length post" by auto
        moreover from gt evs have "evs ! i = post ! (i - Suc (length pre))"
          by (simp add: nth_append nth_Cons')
        ultimately have "evs ! i \<in> set post" by simp
        with flap_enable_events [OF en] ij show False by fastforce
      qed
    qed
    have j_post: "length pre < j"
    proof (rule ccontr)
      assume "\<not> length pre < j"
      then have "j < length pre \<or> j = length pre" by linarith
      then show False
      proof
        assume lt: "j < length pre"
        with evs have "evs ! j = pre ! j" by (simp add: nth_append)
        with lt have "evs ! j \<in> set pre" by simp
        with flap_disable_events [OF d] ij show False by fastforce
      next
        assume "j = length pre"
        with evs ij show False by simp
      qed
    qed
    from evs have "evs ! length pre = Sleep 1" by simp
    with i_pre j_post show ?thesis by blast
  qed
next
  fix resp
  assume ok: "getPortStatus ag s ports = Inr resp \<and> e = None"
  from flap_ports_shape [OF run] ok
  obtain pre s1 post where
      d: "flap_disable ag resp s = (pre, s1, None)" and
      en: "flap_enable ag resp s1 = (post, s', None)" and
      evs: "evs = pre @ Sleep 1 # post"
    by auto
  from flap_disable_calls [OF d] flap_enable_calls [OF en] evs
  show "filter (\<lambda>ev. \<not> is_print ev) evs =
              map (\<lambda>p. SetPortState p False) (enabled_ports resp) @
              Sleep 1 # map (\<lambda>p. SetPortState p True) (enabled_ports resp)"
    by simp
qed

theorem flap_disables_before_enabling_witness:
  "filter (\<lambda>ev. \<not> is_print ev) (fst (flap_ports example_agent [3, 2] ())) =
     [SetPortState 2 False, SetPortState 3 False, Sleep 1,
      SetPortState 2 True, SetPortState 3 True] \<and>
   (\<exists>k. 3 < k \<and> k < 6 \<and> fst (flap_ports example_agent [3, 2] ()) ! k = Sleep 1)"
proof -
  let ?evs = "[Print ''Disabling port 2'', SetPortState 2 False,
               Print ''Disabling port 3'', SetPortState 3 False, Sleep 1,
               Print ''Enabling port 2'', SetPortState 2 True,
               Print ''Enabling port 3'', SetPortState 3 True]"
  have run: "flap_ports example_agent [3, 2] () = (?evs, (), None)"
    by (simp add: flap_ports_def example_agent_def example_port_status_def emit_def
          str_int_def digit_def)
  have resp: "getPortStatus example_agent () [3, 2] =
                Inr [(2, \<lparr> enabled = True, up = True, transceiverIdx = None \<rparr>),
                     (3, \<lparr> enabled = True, up = False, transceiverIdx = None \<rparr>)]"
    by (simp add: example_agent_def example_port_status_def)
  have idx: "(3::nat) < length ?evs \<and> (6::nat) < length ?evs \<and>
             ?evs ! 3 = SetPortState 3 False \<and> ?evs ! 6 = SetPortState 2 True"
    by simp
  from flap_disables_before_enabling [OF run] idx
  have "\<exists>k. 3 < k \<and> k < 6 \<and> ?evs ! k = Sleep 1" by blast
  moreover from flap_disables_before_enabling [OF run] resp
  have "filter (\<lambda>ev. \<not> is_print ev) ?evs =
          [SetPortState 2 False, SetPortState 3 False, Sleep 1,
           SetPortState 2 True, SetPortState 3 True]"
    by (simp add: enabled_ports_def)
  ultimately show ?thesis by (simp only: run fst_conv) 
qed

lemma flap_disable_call_enabled:
  "flap_disable ag resp s = (evs, s', e) \<Longrightarrow> SetPortState p b \<in> set evs \<Longrightarrow>
     \<exists>status. (p, status) \<in> set resp \<and> enabled status"
proof (induction resp arbitrary: s evs)
  case Nil
  then show ?case by simp
next
  case (Cons a resp)
  obtain q status where a: "a = (q, status)" by (cases a)
  show ?case
  proof (cases "enabled status")
    case False
    with Cons.prems a obtain tl where "flap_disable ag resp s = (tl, s', e)"
      and "evs = Print (skip_notice q) # tl"
      by (auto simp: emit_eq)
    with Cons.IH Cons.prems(2) show ?thesis by fastforce
  next
    case True
    show ?thesis
    proof (cases "setPortState ag s q False")
      case (Inl err)
      with True Cons.prems a show ?thesis by auto
    next
      case (Inr s1)
      with True Cons.prems a obtain tl where tl: "flap_disable ag resp s1 = (tl, s', e)"
        and evs: "evs = Print (''Disabling port '' @ str_int q) # SetPortState q False # tl"
        by (auto simp: emit_eq)
      show ?thesis
      proof (cases "SetPortState p b \<in> set tl")
        case True
        with Cons.IH tl show ?thesis by fastforce
      next
        case False
        with evs Cons.prems(2) have "p = q" by auto
        with a \<open>enabled status\<close> show ?thesis by auto
      qed
    qed
  qed
qed

lemma flap_enable_call_enabled:
  "flap_enable ag resp s = (evs, s', e) \<Longrightarrow> SetPortState p b \<in> set evs \<Longrightarrow>
     \<exists>status. (p, status) \<in> set resp \<and> enabled status"
proof (induction resp arbitrary: s evs)
  case Nil
  then show ?case by simp
next
  case (Cons a resp)
  obtain q status where a: "a = (q, status)" by (cases a)
  show ?case
  proof (cases "enabled status")
    case False
    with Cons.prems a have "flap_enable ag resp s = (evs, s', e)" by simp
    with Cons.IH Cons.prems(2) show ?thesis by fastforce
  next
    case True
    show ?thesis
    proof (cases "setPortState ag s q True")
      case (Inl err)
      with True Cons.prems a show ?thesis by auto
    next
      case (Inr s1)
      with True Cons.prems a obtain tl where tl: "flap_enable ag resp s1 = (tl, s', e)"
        and evs: "evs = Print (''Enabling port '' @ str_int q) # SetPortState q True # tl"
        by (auto simp: emit_eq)
      show ?thesis
      proof (cases "SetPortState p b \<in> set tl")
        case True
        with Cons.IH tl show ?thesis by fastforce
      next
        case False
        with evs Cons.prems(2) have "p = q" by auto
        with a \<open>enabled status\<close> show ?thesis by auto
      qed
    qed
  qed
qed

lemma flap_disable_notice:
  "flap_disable ag resp s = (evs, s', None) \<Longrightarrow> (p, status) \<in> set resp \<Longrightarrow>
     \<not> enabled status \<Longrightarrow> Print (skip_notice p) \<in> set evs"
proof (induction resp arbitrary: s evs)
  case Nil
  then show ?case by simp
next
  case (Cons a resp)
  obtain q status' where a: "a = (q, status')" by (cases a)
  show ?case
  proof (cases "enabled status'")
    case False
    with Cons.prems a obtain tl where tl: "flap_disable ag resp s = (tl, s', None)"
      and evs: "evs = Print (skip_notice q) # tl"
      by (auto simp: emit_eq)
    show ?thesis
    proof (cases "(p, status) \<in> set resp")
      case True
      from Cons.IH [OF tl True Cons.prems(3)] evs show ?thesis by simp
    next
      case False
      with Cons.prems(2) a have "p = q" by auto
      with evs show ?thesis by simp
    qed
  next
    case True
    with Cons.prems(2,3) a have mem: "(p, status) \<in> set resp" by auto
    show ?thesis
    proof (cases "setPortState ag s q False")
      case (Inl err)
      with True Cons.prems a show ?thesis by auto
    next
      case (Inr s1)
      with True Cons.prems a obtain tl where tl: "flap_disable ag resp s1 = (tl, s', None)"
        and evs: "evs = Print (''Disabling port '' @ str_int q) # SetPortState q False # tl"
        by (auto simp: emit_eq)
      from Cons.IH [OF tl mem Cons.prems(3)] evs show ?thesis by simp
    qed
  qed
qed

lemma set_status_events:
  "set_status ag ports v s = (evs, s', None) \<Longrightarrow>
     evs = concat (map (\<lambda>p. [Print ((if v then ''Enabling'' else ''Disabling'') @ '' port '' @ str_int p),
                            SetPortState p v]) ports)"
proof (induction ports arbitrary: s evs)
  case Nil
  then show ?case by simp
next
  case (Cons p ports)
  show ?case
  proof (cases "setPortState ag s p v")
    case (Inl err)
    with Cons.prems show ?thesis by (simp add: Let_def)
  next
    case (Inr s1)
    with Cons.prems obtain tl where tl: "set_status ag ports v s1 = (tl, s', None)"
      and evs: "evs = Print ((if v then ''Enabling'' else ''Disabling'') @ '' port '' @ str_int p)
                      # SetPortState p v # tl"
      by (auto simp: emit_eq Let_def)
    from Cons.IH [OF tl] evs show ?thesis by simp
  qed
qed

text \<open>
  C3, as stated, fails for \<^verbatim>\<open>set_status\<close>: port 1 is disabled by configuration, and
  enabling it prints no skip notice and issues the call.
\<close>

theorem set_status_enables_disabled_port:
  "set_status example_agent [1] True () =
     ([Print ''Enabling port 1'', SetPortState 1 True], (), None) \<and>
   getPortStatus example_agent () [1] =
     Inr [(1, \<lparr> enabled = False, up = False, transceiverIdx = None \<rparr>)]"
  by (simp add: example_agent_def example_port_status_def emit_def str_int_def digit_def)

text \<open>
  C3, amended: for a port the agent reports as not enabled, a flap issues no
  \<^verbatim>\<open>setPortState\<close> call, and a flap that runs to its end has printed the skip notice
  for it. \<^verbatim>\<open>set_status\<close> asks for no status: a run to its end has printed the action
  and issued \<^verbatim>\<open>setPortState(port, status)\<close> for every port it was given.
\<close>

theorem flap_skips_set_status_does_not:
  assumes run: "flap_ports ag ports s = (evs, s', e)"
    and resp: "getPortStatus ag s ports = Inr resp"
    and keys: "distinct (map fst resp)"
    and mem: "(p, status) \<in> set resp"
    and off: "\<not> enabled status"
  shows "(\<forall>b. SetPortState p b \<notin> set evs) \<and>
         (e = None \<longrightarrow> Print (skip_notice p) \<in> set evs) \<and>
         (\<forall>ports2 v t evs2 t'. set_status ag ports2 v t = (evs2, t', None) \<longrightarrow>
            evs2 = concat (map (\<lambda>q. [Print ((if v then ''Enabling'' else ''Disabling'')
                                             @ '' port '' @ str_int q),
                                      SetPortState q v]) ports2))"
proof (intro conjI allI impI)
  fix b
  have only: "\<And>status'. (p, status') \<in> set resp \<Longrightarrow> \<not> enabled status'"
    using keys mem off by (metis eq_key_imp_eq_value)
  obtain pre s1 e1 where d: "flap_disable ag resp s = (pre, s1, e1)"
    by (cases "flap_disable ag resp s") auto
  obtain post s2 e2 where en: "flap_enable ag resp s1 = (post, s2, e2)"
    by (cases "flap_enable ag resp s1") auto
  have "set evs \<subseteq> set pre \<union> {Sleep 1} \<union> set post"
    using run resp d en by (cases e1) (auto simp: flap_ports_def emit_def)
  moreover have "SetPortState p b \<notin> set pre"
    using flap_disable_call_enabled [OF d] only by blast
  moreover have "SetPortState p b \<notin> set post"
    using flap_enable_call_enabled [OF en] only by blast
  ultimately show "SetPortState p b \<notin> set evs" by auto
next
  assume "e = None"
  with flap_ports_shape [OF run] resp obtain pre s1 post where
        d: "flap_disable ag resp s = (pre, s1, None)" and
        evs: "evs = pre @ Sleep 1 # post"
    by auto
  from flap_disable_notice [OF d mem off] evs show "Print (skip_notice p) \<in> set evs" by simp
next
  fix ports2 v t evs2 t'
  assume "set_status ag ports2 v t = (evs2, t', None)"
  then show "evs2 = concat (map (\<lambda>q. [Print ((if v then ''Enabling'' else ''Disabling'')
                                             @ '' port '' @ str_int q),
                                      SetPortState q v]) ports2)"
    by (rule set_status_events)
qed

theorem flap_skips_set_status_does_not_witness:
  "SetPortState 1 False \<notin> set (fst (flap_ports example_agent [1, 2] ())) \<and>
   SetPortState 1 True \<notin> set (fst (flap_ports example_agent [1, 2] ())) \<and>
   Print ''Port 1 is disabled by configuration, cannot flap''
     \<in> set (fst (flap_ports example_agent [1, 2] ())) \<and>
   fst (set_status example_agent [1, 2] False ()) =
     [Print ''Disabling port 1'', SetPortState 1 False,
      Print ''Disabling port 2'', SetPortState 2 False]"
proof -
  let ?evs = "[Print ''Port 1 is disabled by configuration, cannot flap'',
               Print ''Disabling port 2'', SetPortState 2 False, Sleep 1,
               Print ''Enabling port 2'', SetPortState 2 True]"
  let ?off = "\<lparr> enabled = False, up = False, transceiverIdx = None \<rparr>"
  let ?resp = "[(1 :: int, ?off), (2, \<lparr> enabled = True, up = True, transceiverIdx = None \<rparr>)]"
  let ?evs2 = "[Print ''Disabling port 1'', SetPortState 1 False,
                Print ''Disabling port 2'', SetPortState 2 False]"
  have run: "flap_ports example_agent [1, 2] () = (?evs, (), None)"
    by (simp add: flap_ports_def example_agent_def example_port_status_def emit_def
          str_int_def digit_def skip_notice_def)
  have resp: "getPortStatus example_agent () [1, 2] = Inr ?resp"
    by (simp add: example_agent_def example_port_status_def)
  have keys: "distinct (map fst ?resp)" by simp
  have mem: "(1, ?off) \<in> set ?resp" by simp
  have off: "\<not> enabled ?off" by simp
  have run2: "set_status example_agent [1, 2] False () = (?evs2, (), None)"
    by (simp add: example_agent_def emit_def str_int_def digit_def)
  note inst = flap_skips_set_status_does_not [OF run resp keys mem off]
  from inst have "SetPortState 1 False \<notin> set ?evs" "SetPortState 1 True \<notin> set ?evs" by blast+
  moreover from inst have "Print (skip_notice 1) \<in> set ?evs" by blast
  then have "Print ''Port 1 is disabled by configuration, cannot flap'' \<in> set ?evs"
    by (simp add: skip_notice_def str_int_def digit_def)
  moreover from inst run2 have "?evs2 =
      concat (map (\<lambda>q. [Print ((if False then ''Enabling'' else ''Disabling'')
                                 @ '' port '' @ str_int q), SetPortState q False]) [1, 2])"
    by blast
  then have "fst (set_status example_agent [1, 2] False ()) =
      concat (map (\<lambda>q. [Print ((if False then ''Enabling'' else ''Disabling'')
                                 @ '' port '' @ str_int q), SetPortState q False]) [1, 2])"
    by (simp only: run2 fst_conv)
  then have "fst (set_status example_agent [1, 2] False ()) = ?evs2"
    by (simp add: str_int_def digit_def)
  ultimately show ?thesis by (simp only: run fst_conv) blast
qed

subsection \<open>Port details\<close>

lemma and_then_done:
  "and_then a b = (out, None) \<longleftrightarrow> (\<exists>x y. a = (x, None) \<and> b = (y, None) \<and> out = x @ y)"
  by (cases a; cases b) (auto simp: and_then_def split: option.splits)

lemma print_port_details_text:
  assumes "print_port_details fmt_0f ag s port_id given = (out, None)"
  shows "\<exists>info mbps v u.
           (case given of None \<Rightarrow> getPortInfo ag s port_id | Some i \<Rightarrow> Inr i) = Inr info \<and>
           speedMbps info = Some mbps \<and> convert_bps (mbps * 10 ^ 6) = Inr (v, u) \<and>
           out = details_block info (if operState info \<noteq> 0 then ''UP'' else ''DOWN'')
                   (fmt_0f v @ '' '' @ u)"
proof -
  obtain info where info:
    "(case given of None \<Rightarrow> getPortInfo ag s port_id | Some i \<Rightarrow> Inr i) = Inr info"
    using assms
    by (cases "case given of None \<Rightarrow> getPortInfo ag s port_id | Some i \<Rightarrow> Inr i")
       (auto simp: print_port_details_def)
  obtain mbps where mbps: "speedMbps info = Some mbps"
    using assms info by (cases "speedMbps info") (auto simp: print_port_details_def Let_def)
  obtain v u where vu: "convert_bps (mbps * 10 ^ 6) = Inr (v, u)"
    using assms info mbps
    by (cases "convert_bps (mbps * 10 ^ 6)") (auto simp: print_port_details_def Let_def)
  have "out = details_block info (if operState info \<noteq> 0 then ''UP'' else ''DOWN'')
                   (fmt_0f v @ '' '' @ u)"
    using assms info mbps vu
    by (auto simp: print_port_details_def Let_def details_block_def)
  with info mbps vu show ?thesis by blast
qed

lemma print_port_details_lines:
  "print_port_details fmt_0f ag s port_id given = (out, None) \<Longrightarrow> length out = 3"
  using print_port_details_text [of fmt_0f ag s port_id given out]
  by (auto simp: details_block_def)

lemma print_requested_lines:
  "print_requested fmt_0f ag s ports = (out, None) \<Longrightarrow> length out = 3 * length ports"
proof (induction ports arbitrary: out)
  case Nil
  then show ?case by simp
next
  case (Cons p ports)
  from Cons.prems obtain x y where x: "print_port_details fmt_0f ag s p None = (x, None)"
    and y: "print_requested fmt_0f ag s ports = (y, None)" and out: "out = x @ y"
    by (auto simp: and_then_done)
  from print_port_details_lines [OF x] Cons.IH [OF y] out show ?case by simp
qed

lemma print_infos_lines:
  "print_infos fmt_0f ag s infos = (out, None) \<Longrightarrow> length out = 3 * length infos"
proof (induction infos arbitrary: out)
  case Nil
  then show ?case by simp
next
  case (Cons info infos)
  from Cons.prems obtain x y where
    x: "print_port_details fmt_0f ag s (portId info) (Some info) = (x, None)"
    and y: "print_infos fmt_0f ag s infos = (y, None)" and out: "out = x @ y"
    by (auto simp: and_then_done)
  from print_port_details_lines [OF x] Cons.IH [OF y] out show ?case by simp
qed

lemma print_requested_blocks:
  "print_requested fmt_0f ag s ports = (out, None) \<Longrightarrow>
     \<exists>blocks. out = concat blocks \<and>
       list_all2 (\<lambda>p block. \<exists>info mbps v u.
                    getPortInfo ag s p = Inr info \<and> speedMbps info = Some mbps \<and>
                    convert_bps (mbps * 10 ^ 6) = Inr (v, u) \<and>
                    block = details_block info (if operState info \<noteq> 0 then ''UP'' else ''DOWN'')
                              (fmt_0f v @ '' '' @ u))
                 ports blocks"
proof (induction ports arbitrary: out)
  case Nil
  then show ?case by simp
next
  case (Cons p ports)
  from Cons.prems obtain x y where x: "print_port_details fmt_0f ag s p None = (x, None)"
    and y: "print_requested fmt_0f ag s ports = (y, None)" and out: "out = x @ y"
    by (auto simp: and_then_done)
  from Cons.IH [OF y] obtain blocks where
    blocks: "y = concat blocks"
      "list_all2 (\<lambda>p block. \<exists>info mbps v u.
                    getPortInfo ag s p = Inr info \<and> speedMbps info = Some mbps \<and>
                    convert_bps (mbps * 10 ^ 6) = Inr (v, u) \<and>
                    block = details_block info (if operState info \<noteq> 0 then ''UP'' else ''DOWN'')
                              (fmt_0f v @ '' '' @ u))
                 ports blocks"
    by blast
  from print_port_details_text [OF x]
  have "\<exists>info mbps v u.
          getPortInfo ag s p = Inr info \<and> speedMbps info = Some mbps \<and>
          convert_bps (mbps * 10 ^ 6) = Inr (v, u) \<and>
          x = details_block info (if operState info \<noteq> 0 then ''UP'' else ''DOWN'')
                (fmt_0f v @ '' '' @ u)"
    by simp
  with blocks out show ?case
    by (intro exI [of _ "x # blocks"]) simp
qed

lemma print_infos_blocks:
  "print_infos fmt_0f ag s infos = (out, None) \<Longrightarrow> \<forall>info \<in> set infos. operState info = 1 \<Longrightarrow>
     \<exists>blocks. out = concat blocks \<and>
       list_all2 (\<lambda>info block. \<exists>mbps v u.
                    operState info = 1 \<and> speedMbps info = Some mbps \<and>
                    convert_bps (mbps * 10 ^ 6) = Inr (v, u) \<and>
                    block = details_block info ''UP'' (fmt_0f v @ '' '' @ u))
                 infos blocks"
proof (induction infos arbitrary: out)
  case Nil
  then show ?case by simp
next
  case (Cons info infos)
  from Cons.prems(1) obtain x y where
    x: "print_port_details fmt_0f ag s (portId info) (Some info) = (x, None)"
    and y: "print_infos fmt_0f ag s infos = (y, None)" and out: "out = x @ y"
    by (auto simp: and_then_done)
  from Cons.prems(2) have up: "operState info = 1" and rest: "\<forall>i \<in> set infos. operState i = 1"
    by simp_all
  from Cons.IH [OF y rest] obtain blocks where
    blocks: "y = concat blocks"
      "list_all2 (\<lambda>info block. \<exists>mbps v u.
                    operState info = 1 \<and> speedMbps info = Some mbps \<and>
                    convert_bps (mbps * 10 ^ 6) = Inr (v, u) \<and>
                    block = details_block info ''UP'' (fmt_0f v @ '' '' @ u))
                 infos blocks"
    by blast
  from print_port_details_text [OF x] up
  have "\<exists>mbps v u.
          operState info = 1 \<and> speedMbps info = Some mbps \<and>
          convert_bps (mbps * 10 ^ 6) = Inr (v, u) \<and>
          x = details_block info ''UP'' (fmt_0f v @ '' '' @ u)"
    by simp
  with blocks out show ?case
    by (intro exI [of _ "x # blocks"]) simp
qed

lemma up_ports_sorted_count:
  "length (filter (\<lambda>info. operState info = 1) (sort_key f (map snd resp))) =
   length (filter (\<lambda>(p, info). operState info = 1) resp)"
proof -
  have "length (filter (\<lambda>info. operState info = 1) (sort_key f (map snd resp))) =
        length (filter (\<lambda>info. operState info = 1) (map snd resp))"
    by (simp add: filter_sort)
  also have "\<dots> = length (filter (\<lambda>(p, info). operState info = 1) resp)"
    by (induction resp) auto
  finally show ?thesis .
qed

text \<open>
  C9. With no ports given and a response that is not empty, \<^verbatim>\<open>run\<close> prints the
  details of exactly the ports whose \<^verbatim>\<open>operState\<close> is 1, in sorted order; a run to
  its end has printed, for each of them and for no other port, the empty line, the
  seven detail lines with its name, its id and the link state \<open>UP\<close>, and the
  description; it prints nothing at all when every port is down. With ports given, a
  run to its end has printed that block for every one of them, from the info of
  \<^verbatim>\<open>getPortInfo\<close> and with the link state \<open>UP\<close> or \<open>DOWN\<close> as it is.
\<close>

theorem details_lists_only_up_ports:
  "(getAllPortInfo ag s = Inr resp \<and> resp \<noteq> [] \<longrightarrow>
      PortDetailsCmd_run fmt_0f port_sort_fn ag s [] =
        print_infos fmt_0f ag s (filter (\<lambda>info. operState info = 1)
                                   (sort_key port_sort_fn (map snd resp))) \<and>
      (\<forall>out. PortDetailsCmd_run fmt_0f port_sort_fn ag s [] = (out, None) \<longrightarrow>
         length out = 3 * length (filter (\<lambda>(p, info). operState info = 1) resp) \<and>
         (\<exists>blocks. out = concat blocks \<and>
            list_all2 (\<lambda>info block. \<exists>mbps v u.
                         operState info = 1 \<and> speedMbps info = Some mbps \<and>
                         convert_bps (mbps * 10 ^ 6) = Inr (v, u) \<and>
                         block = details_block info ''UP'' (fmt_0f v @ '' '' @ u))
              (filter (\<lambda>info. operState info = 1) (sort_key port_sort_fn (map snd resp)))
              blocks)) \<and>
      ((\<forall>info \<in> snd ` set resp. operState info \<noteq> 1) \<longrightarrow>
         PortDetailsCmd_run fmt_0f port_sort_fn ag s [] = ([], None))) \<and>
   (ports \<noteq> [] \<longrightarrow>
      PortDetailsCmd_run fmt_0f port_sort_fn ag s ports = print_requested fmt_0f ag s ports \<and>
      (\<forall>out. PortDetailsCmd_run fmt_0f port_sort_fn ag s ports = (out, None) \<longrightarrow>
         length out = 3 * length ports \<and>
         (\<exists>blocks. out = concat blocks \<and>
            list_all2 (\<lambda>p block. \<exists>info mbps v u.
                         getPortInfo ag s p = Inr info \<and> speedMbps info = Some mbps \<and>
                         convert_bps (mbps * 10 ^ 6) = Inr (v, u) \<and>
                         block = details_block info
                                   (if operState info \<noteq> 0 then ''UP'' else ''DOWN'')
                                   (fmt_0f v @ '' '' @ u))
              ports blocks)))"
proof (intro conjI impI allI)
  assume all: "getAllPortInfo ag s = Inr resp \<and> resp \<noteq> []"
  let ?ups = "filter (\<lambda>info. operState info = 1) (sort_key port_sort_fn (map snd resp))"
  from all show run: "PortDetailsCmd_run fmt_0f port_sort_fn ag s [] = print_infos fmt_0f ag s ?ups"
    by (simp add: PortDetailsCmd_run_def)
  {
    fix out
    assume "PortDetailsCmd_run fmt_0f port_sort_fn ag s [] = (out, None)"
    with run have fin: "print_infos fmt_0f ag s ?ups = (out, None)"
      by simp
    from print_infos_lines [OF fin]
    show "length out = 3 * length (filter (\<lambda>(p, info). operState info = 1) resp)"
      by (simp add: up_ports_sorted_count)
    have "\<forall>info \<in> set ?ups. operState info = 1" by simp
    from print_infos_blocks [OF fin this]
    show "\<exists>blocks. out = concat blocks \<and>
            list_all2 (\<lambda>info block. \<exists>mbps v u.
                         operState info = 1 \<and> speedMbps info = Some mbps \<and>
                         convert_bps (mbps * 10 ^ 6) = Inr (v, u) \<and>
                         block = details_block info ''UP'' (fmt_0f v @ '' '' @ u))
              ?ups blocks" .
  }
  {
    assume "\<forall>info \<in> snd ` set resp. operState info \<noteq> 1"
    then have "?ups = []"
      by (auto simp: filter_empty_conv)
    with run show "PortDetailsCmd_run fmt_0f port_sort_fn ag s [] = ([], None)" by simp
  }
next
  assume "ports \<noteq> []"
  then show run: "PortDetailsCmd_run fmt_0f port_sort_fn ag s ports =
                    print_requested fmt_0f ag s ports"
    by (simp add: PortDetailsCmd_run_def)
  fix out
  assume "PortDetailsCmd_run fmt_0f port_sort_fn ag s ports = (out, None)"
  with run have fin: "print_requested fmt_0f ag s ports = (out, None)" by simp
  then show "length out = 3 * length ports" by (rule print_requested_lines)
  from print_requested_blocks [OF fin]
  show "\<exists>blocks. out = concat blocks \<and>
            list_all2 (\<lambda>p block. \<exists>info mbps v u.
                         getPortInfo ag s p = Inr info \<and> speedMbps info = Some mbps \<and>
                         convert_bps (mbps * 10 ^ 6) = Inr (v, u) \<and>
                         block = details_block info
                                   (if operState info \<noteq> 0 then ''UP'' else ''DOWN'')
                                   (fmt_0f v @ '' '' @ u))
              ports blocks" .
qed

theorem details_lists_only_up_ports_witness:
  "PortDetailsCmd_run fmt_0f_exact portId example_agent () [] =
     ([[],
       ''Name..............................................eth1/2/1'' @ [CHR 0x0A] @
       ''Port ID...........................................2'' @ [CHR 0x0A] @
       ''Admin State.......................................ENABLED'' @ [CHR 0x0A] @
       ''Link State........................................UP'' @ [CHR 0x0A] @
       ''Speed.............................................40 Gbps'' @ [CHR 0x0A] @
       ''VLANs.............................................2001 2002'' @ [CHR 0x0A] @
       ''Forward Error Correction..........................DISABLED'',
       ''Description.........uplink''], None) \<and>
   fst (PortDetailsCmd_run fmt_0f_exact portId example_agent () []) =
     details_block (snd (example_port_info ! 1)) ''UP'' ''40 Gbps'' \<and>
   PortDetailsCmd_run fmt_0f_exact portId example_agent () [3, 1] =
     ([[],
       ''Name..............................................eth1/3/1'' @ [CHR 0x0A] @
       ''Port ID...........................................3'' @ [CHR 0x0A] @
       ''Admin State.......................................ENABLED'' @ [CHR 0x0A] @
       ''Link State........................................DOWN'' @ [CHR 0x0A] @
       ''Speed.............................................2 Gbps'' @ [CHR 0x0A] @
       ''VLANs.............................................'' @ [CHR 0x0A] @
       ''Forward Error Correction..........................ENABLED'',
       ''Description.........'',
       [],
       ''Name..............................................eth1/1/1'' @ [CHR 0x0A] @
       ''Port ID...........................................1'' @ [CHR 0x0A] @
       ''Admin State.......................................DISABLED'' @ [CHR 0x0A] @
       ''Link State........................................DOWN'' @ [CHR 0x0A] @
       ''Speed.............................................10 Gbps'' @ [CHR 0x0A] @
       ''VLANs.............................................'' @ [CHR 0x0A] @
       ''Forward Error Correction..........................N/A'',
       ''Description.........''], None) \<and>
   length (fst (PortDetailsCmd_run fmt_0f_exact portId example_agent () [3, 1])) = 6 \<and>
   PortDetailsCmd_run fmt_0f_exact portId
     (example_agent\<lparr> getAllPortInfo := \<lambda>s. Inr [example_port_info ! 0, example_port_info ! 2] \<rparr>)
     () [] = ([], None)"
proof -
  let ?dark = "example_agent\<lparr> getAllPortInfo :=
                 \<lambda>s. Inr [example_port_info ! 0, example_port_info ! 2] \<rparr>"
  let ?up = "snd (example_port_info ! 1)"
  have dark: "getAllPortInfo ?dark () = Inr [example_port_info ! 0, example_port_info ! 2] \<and>
              [example_port_info ! 0, example_port_info ! 2] \<noteq> []"
    by simp
  have down: "\<forall>info \<in> snd ` set [example_port_info ! 0, example_port_info ! 2].
                operState info \<noteq> 1"
    by (simp add: example_port_info_def)
  from details_lists_only_up_ports
         [of ?dark "()" "[example_port_info ! 0, example_port_info ! 2]" fmt_0f_exact portId "[]"]
       dark down
  have five: "PortDetailsCmd_run fmt_0f_exact portId ?dark () [] = ([], None)"
    by blast
  have resp: "getAllPortInfo example_agent () = Inr example_port_info \<and> example_port_info \<noteq> []"
    by (simp add: example_agent_def example_port_info_def)
  have ports: "[3, 1] \<noteq> ([] :: int list)" by simp
  have one: "PortDetailsCmd_run fmt_0f_exact portId example_agent () [] =
     ([[],
       ''Name..............................................eth1/2/1'' @ [CHR 0x0A] @
       ''Port ID...........................................2'' @ [CHR 0x0A] @
       ''Admin State.......................................ENABLED'' @ [CHR 0x0A] @
       ''Link State........................................UP'' @ [CHR 0x0A] @
       ''Speed.............................................40 Gbps'' @ [CHR 0x0A] @
       ''VLANs.............................................2001 2002'' @ [CHR 0x0A] @
       ''Forward Error Correction..........................DISABLED'',
       ''Description.........uplink''], None)"
    by code_simp
  have three: "PortDetailsCmd_run fmt_0f_exact portId example_agent () [3, 1] =
     ([[],
       ''Name..............................................eth1/3/1'' @ [CHR 0x0A] @
       ''Port ID...........................................3'' @ [CHR 0x0A] @
       ''Admin State.......................................ENABLED'' @ [CHR 0x0A] @
       ''Link State........................................DOWN'' @ [CHR 0x0A] @
       ''Speed.............................................2 Gbps'' @ [CHR 0x0A] @
       ''VLANs.............................................'' @ [CHR 0x0A] @
       ''Forward Error Correction..........................ENABLED'',
       ''Description.........'',
       [],
       ''Name..............................................eth1/1/1'' @ [CHR 0x0A] @
       ''Port ID...........................................1'' @ [CHR 0x0A] @
       ''Admin State.......................................DISABLED'' @ [CHR 0x0A] @
       ''Link State........................................DOWN'' @ [CHR 0x0A] @
       ''Speed.............................................10 Gbps'' @ [CHR 0x0A] @
       ''VLANs.............................................'' @ [CHR 0x0A] @
       ''Forward Error Correction..........................N/A'',
       ''Description.........''], None)"
    by code_simp
  obtain out0 where out0: "PortDetailsCmd_run fmt_0f_exact portId example_agent () [] = (out0, None)"
    using one by blast
  obtain out1 where
    out1: "PortDetailsCmd_run fmt_0f_exact portId example_agent () [3, 1] = (out1, None)"
    using three by blast
  note inst = details_lists_only_up_ports
                [of example_agent "()" example_port_info fmt_0f_exact portId "[3, 1]"]
  have ups: "filter (\<lambda>info. operState info = 1) (sort_key portId (map snd example_port_info)) =
             [?up]"
    by (simp add: example_port_info_def)
  from inst resp out0 obtain blocks where
    "out0 = concat blocks" and
    "list_all2 (\<lambda>info block. \<exists>mbps v u.
                  operState info = 1 \<and> speedMbps info = Some mbps \<and>
                  convert_bps (mbps * 10 ^ 6) = Inr (v, u) \<and>
                  block = details_block info ''UP'' (fmt_0f_exact v @ '' '' @ u))
       (filter (\<lambda>info. operState info = 1) (sort_key portId (map snd example_port_info)))
       blocks"
    by blast
  then obtain mbps v u where
    "speedMbps ?up = Some mbps" and "convert_bps (mbps * 10 ^ 6) = Inr (v, u)" and
    "out0 = details_block ?up ''UP'' (fmt_0f_exact v @ '' '' @ u)"
    unfolding ups by (auto simp: list_all2_Cons1)
  moreover have "speedMbps ?up = Some 40000" by (simp add: example_port_info_def)
  moreover have "convert_bps (40000 * 10 ^ 6) = Inr (40, ''Gbps'')"
    using convert_bps_giga [of 40000000000] by simp
  moreover have "fmt_0f_exact 40 = ''40''" by code_simp
  ultimately have "out0 = details_block ?up ''UP'' ''40 Gbps''" by simp
  with out0 have two: "fst (PortDetailsCmd_run fmt_0f_exact portId example_agent () []) =
     details_block ?up ''UP'' ''40 Gbps''"
    by simp
  from inst ports out1 have "length out1 = 3 * length [3, 1 :: int]" by blast
  with out1 have four: "length (fst (PortDetailsCmd_run fmt_0f_exact portId example_agent () [3, 1])) = 6"
    by simp
  from one two three four five show ?thesis by blast
qed

end
